theory Spec2Isabelle
  imports Complex_Main
begin

section \<open>The formula parser of parse.c\<close>

text \<open>
  The C type \<open>double\<close> is modelled by \<open>real\<close>: the four arithmetic operators and the
  comparisons of the source are the exact ones of the reals, so rounding, infinities and
  NaN are outside this model. The functions the source takes from the C library
  (\<open>strtod\<close>, \<open>pow\<close>, the functions of \<open>math.h\<close>, the success of \<open>calloc\<close>) are not part
  of the repository; the parser takes them as a parameter, the record \<open>libc\<close>, and
  \<open>libc_real\<close> below is one instance used to run the parser on concrete formulas.
\<close>

subsection \<open>Defines\<close>

definition MAXNUMBERVAR :: nat where "MAXNUMBERVAR = 128"
definition MAXTOKENLENGTH :: nat where "MAXTOKENLENGTH = 32"
definition NOTFOUND :: int where "NOTFOUND = - 1"
definition NOROOM :: int where "NOROOM = - 2"
definition NOHEAP :: int where "NOHEAP = - 3"
definition DEFAULT_RETURN :: real where "DEFAULT_RETURN = 0.0"
definition M_E :: real where "M_E = 2.7182818284590452354"
definition M_PI :: real where "M_PI = 3.1415926535897931160"

subsection \<open>Type definitions\<close>

text \<open>Operators, in order from lowest to highest precedence.\<close>

datatype operator_t =
    OP_EndLine
  | OP_BeginLine
  | OP_CloseParenthesis
  | OP_OpenParenthesis
  | OP_Assignment
  | OP_Add
  | OP_Subtract
  | OP_Multiply
  | OP_Divide
  | OP_RaisePower

text \<open>The integer value of an enumerator; the source compares operators by it.\<close>

fun operator_rank :: "operator_t \<Rightarrow> nat" where
  "operator_rank OP_EndLine = 0"
| "operator_rank OP_BeginLine = 1"
| "operator_rank OP_CloseParenthesis = 2"
| "operator_rank OP_OpenParenthesis = 3"
| "operator_rank OP_Assignment = 4"
| "operator_rank OP_Add = 5"
| "operator_rank OP_Subtract = 6"
| "operator_rank OP_Multiply = 7"
| "operator_rank OP_Divide = 8"
| "operator_rank OP_RaisePower = 9"

datatype function_t =
    FUNC_err
  | FUNC_sin
  | FUNC_cos
  | FUNC_tan
  | FUNC_exp
  | FUNC_log
  | FUNC_log10
  | FUNC_fabs
  | FUNC_acos
  | FUNC_asin
  | FUNC_atan
  | FUNC_sqrt
  | FUNC_int

datatype errorcode_t =
    ERROR_none
  | ERROR_operand
  | ERROR_openparen
  | ERROR_closeparen
  | ERROR_operator
  | ERROR_division
  | ERROR_function
  | ERROR_variable_expected
  | ERROR_variable_full
  | ERROR_variable_long
  | ERROR_heap_full
  | ERROR_parameter

text \<open>The cast \<open>(int) ErrorCode_m\<close> of \<open>evalform\<close>.\<close>

fun errorcode_int :: "errorcode_t \<Rightarrow> int" where
  "errorcode_int ERROR_none = 0"
| "errorcode_int ERROR_operand = 1"
| "errorcode_int ERROR_openparen = 2"
| "errorcode_int ERROR_closeparen = 3"
| "errorcode_int ERROR_operator = 4"
| "errorcode_int ERROR_division = 5"
| "errorcode_int ERROR_function = 6"
| "errorcode_int ERROR_variable_expected = 7"
| "errorcode_int ERROR_variable_full = 8"
| "errorcode_int ERROR_variable_long = 9"
| "errorcode_int ERROR_heap_full = 10"
| "errorcode_int ERROR_parameter = 11"

subsection \<open>The C library\<close>

text \<open>
  \<open>c_strtod\<close> receives the characters from the cursor on and returns the value read and
  the number of characters it consumed (0 when no conversion is possible).
  \<open>c_calloc_ok k\<close> tells whether the allocation of \<open>k\<close> bytes succeeds.
\<close>

record libc =
  c_strtod :: "string \<Rightarrow> real \<times> nat"
  c_calloc_ok :: "nat \<Rightarrow> bool"
  c_pow :: "real \<Rightarrow> real \<Rightarrow> real"
  c_sin :: "real \<Rightarrow> real"
  c_cos :: "real \<Rightarrow> real"
  c_tan :: "real \<Rightarrow> real"
  c_exp :: "real \<Rightarrow> real"
  c_log :: "real \<Rightarrow> real"
  c_log10 :: "real \<Rightarrow> real"
  c_fabs :: "real \<Rightarrow> real"
  c_acos :: "real \<Rightarrow> real"
  c_asin :: "real \<Rightarrow> real"
  c_atan :: "real \<Rightarrow> real"
  c_sqrt :: "real \<Rightarrow> real"
  c_ceil :: "real \<Rightarrow> real"
  c_floor :: "real \<Rightarrow> real"

definition isupper :: "char \<Rightarrow> bool" where
  "isupper c = (65 \<le> (of_char c :: nat) \<and> (of_char c :: nat) \<le> 90)"

definition islower :: "char \<Rightarrow> bool" where
  "islower c = (97 \<le> (of_char c :: nat) \<and> (of_char c :: nat) \<le> 122)"

definition isdigit :: "char \<Rightarrow> bool" where
  "isdigit c = (48 \<le> (of_char c :: nat) \<and> (of_char c :: nat) \<le> 57)"

text \<open>\<open>isalnum\<close> and \<open>toupper\<close> in the C locale.\<close>

definition isalnum :: "char \<Rightarrow> bool" where
  "isalnum c = (isupper c \<or> islower c \<or> isdigit c)"

definition toupper :: "char \<Rightarrow> char" where
  "toupper c = (if islower c then char_of ((of_char c :: nat) - 32) else c)"

subsection \<open>Module-wide variables\<close>

text \<open>
  \<open>Formula\<close> is the caller's character buffer without its terminating null character,
  and \<open>FormulaString_m\<close> is the offset of the C pointer of that name into it.
  \<open>Variables_m\<close> holds the first \<open>NumberOfVariables_m\<close> entries of the parallel arrays
  \<open>VariableNames_m\<close> and \<open>VariableValues_m\<close>; its length is \<open>NumberOfVariables_m\<close>.
  \<open>TokenString_m\<close> and \<open>DivisorValue_m\<close> are read only right after they are written,
  and are local values here.
\<close>

type_synonym variables = "(string \<times> real) list"

record parse_state =
  Formula :: string
  FormulaString_m :: nat
  ParenthesisLevel_m :: int
  ErrorCode_m :: errorcode_t
  Variables_m :: variables

text \<open>The character under a pointer: past the buffer stands the terminating null.\<close>

definition peek :: "string \<Rightarrow> nat \<Rightarrow> char" where
  "peek f p = (if p < length f then f ! p else CHR 0x00)"

subsection \<open>Local subroutines\<close>

fun GetVariableID_from :: "variables \<Rightarrow> string \<Rightarrow> int \<Rightarrow> int" where
  "GetVariableID_from [] TestName VariableID = NOTFOUND"
| "GetVariableID_from (nv # vs) TestName VariableID =
     (if fst nv = TestName then VariableID
      else GetVariableID_from vs TestName (VariableID + 1))"

definition GetVariableID :: "variables \<Rightarrow> string \<Rightarrow> int" where
  "GetVariableID vars TestName = GetVariableID_from vars TestName 0"

definition AssignVariable :: "libc \<Rightarrow> variables \<Rightarrow> string \<Rightarrow> real \<Rightarrow> int \<times> variables" where
  "AssignVariable L vars NewName NewValue =
     (let VariableID = GetVariableID vars NewName in
      if VariableID = NOTFOUND then
        (if length vars \<ge> MAXNUMBERVAR then (NOROOM, vars)
         else if \<not> c_calloc_ok L (length NewName + 1) then (NOHEAP, vars)
         else (int (length vars), vars @ [(NewName, NewValue)]))
      else (VariableID, vars[nat VariableID := (fst (vars ! nat VariableID), NewValue)]))"

definition LookupFunction :: "string \<Rightarrow> function_t" where
  "LookupFunction FunctionName =
     (if FunctionName = ''SIN'' then FUNC_sin
      else if FunctionName = ''COS'' then FUNC_cos
      else if FunctionName = ''TAN'' then FUNC_tan
      else if FunctionName = ''EXP'' then FUNC_exp
      else if FunctionName = ''LOG'' then FUNC_log
      else if FunctionName = ''LOG10'' then FUNC_log10
      else if FunctionName = ''ACOS'' then FUNC_acos
      else if FunctionName = ''ASIN'' then FUNC_asin
      else if FunctionName = ''ATAN'' then FUNC_atan
      else if FunctionName = ''ABS'' then FUNC_fabs
      else if FunctionName = ''SQRT'' then FUNC_sqrt
      else if FunctionName = ''INT'' then FUNC_int
      else FUNC_err)"

text \<open>The first \<open>switch\<close> of \<open>EvaluateFunction\<close>: the check of the argument range.\<close>

definition ArgumentOk :: "function_t \<Rightarrow> real \<Rightarrow> bool" where
  "ArgumentOk InputFunction x =
     (case InputFunction of
        FUNC_log \<Rightarrow> \<not> x \<le> 0.0
      | FUNC_log10 \<Rightarrow> \<not> x \<le> 0.0
      | FUNC_sqrt \<Rightarrow> \<not> x \<le> 0.0
      | FUNC_acos \<Rightarrow> \<not> (x < - 1.0 \<or> x \<ge> 1.0)
      | FUNC_asin \<Rightarrow> \<not> (x < - 1.0 \<or> x \<ge> 1.0)
      | _ \<Rightarrow> True)"

text \<open>
  \<open>EvaluateFunction\<close> returns the value and the state, whose error code it sets when the
  argument is out of range. \<open>None\<close> is the \<open>exit(1)\<close> of the default case.
\<close>

definition EvaluateFunction ::
  "libc \<Rightarrow> function_t \<Rightarrow> real \<Rightarrow> parse_state \<Rightarrow> (real \<times> parse_state) option" where
  "EvaluateFunction L InputFunction x s =
     (if \<not> ArgumentOk InputFunction x
      then Some (DEFAULT_RETURN, s\<lparr>ErrorCode_m := ERROR_parameter\<rparr>)
      else case InputFunction of
        FUNC_sin \<Rightarrow> Some (c_sin L x, s)
      | FUNC_cos \<Rightarrow> Some (c_cos L x, s)
      | FUNC_tan \<Rightarrow> Some (c_tan L x, s)
      | FUNC_exp \<Rightarrow> Some (c_exp L x, s)
      | FUNC_log \<Rightarrow> Some (c_log L x, s)
      | FUNC_log10 \<Rightarrow> Some (c_log10 L x, s)
      | FUNC_fabs \<Rightarrow> Some (c_fabs L x, s)
      | FUNC_acos \<Rightarrow> Some (c_acos L x, s)
      | FUNC_asin \<Rightarrow> Some (c_asin L x, s)
      | FUNC_atan \<Rightarrow> Some (c_atan L x, s)
      | FUNC_sqrt \<Rightarrow> Some (c_sqrt L x, s)
      | FUNC_int \<Rightarrow> Some (if x < 0 then c_ceil L x else c_floor L x, s)
      | FUNC_err \<Rightarrow> None)"

definition is_white :: "char \<Rightarrow> bool" where
  "is_white c = (c = CHR '' '' \<or> (of_char c :: nat) = 9 \<or> (of_char c :: nat) = 10
                 \<or> (of_char c :: nat) = 13)"

definition SkipWhiteSpace :: "string \<Rightarrow> nat \<Rightarrow> nat" where
  "SkipWhiteSpace f p = p + length (takeWhile is_white (drop p f))"

definition GetNextTokenLength :: "string \<Rightarrow> nat \<Rightarrow> nat" where
  "GetNextTokenLength f cptr =
     (if \<not> (isupper (peek f cptr) \<or> islower (peek f cptr) \<or> peek f cptr = CHR ''%'')
      then 0
      else 1 + length (takeWhile (\<lambda>c. isalnum c \<or> c = CHR ''_'') (drop (cptr + 1) f)))"

definition CopyUppercaseString :: "string \<Rightarrow> nat \<Rightarrow> nat \<Rightarrow> string" where
  "CopyUppercaseString f SourceString Size = map toupper (take Size (drop SourceString f))"

text \<open>The \<open>switch\<close> that reads the operator; \<open>None\<close> is its default case.\<close>

definition GetOperator :: "char \<Rightarrow> operator_t option" where
  "GetOperator c =
     (if c = CHR ''+'' then Some OP_Add
      else if c = CHR ''-'' then Some OP_Subtract
      else if c = CHR ''*'' then Some OP_Multiply
      else if c = CHR ''/'' then Some OP_Divide
      else if c = CHR ''^'' then Some OP_RaisePower
      else if c = CHR '')'' then Some OP_CloseParenthesis
      else if c = CHR ''='' then Some OP_Assignment
      else if c = CHR 0x00 then Some OP_EndLine
      else None)"

text \<open>The criteria for applying the operator, at the head of the \<open>while\<close> loop.\<close>

definition ApplyCriteria :: "operator_t \<Rightarrow> operator_t \<Rightarrow> bool" where
  "ApplyCriteria CurrentOperator PendingOperator =
     (if CurrentOperator = OP_Assignment
      then operator_rank CurrentOperator \<ge> operator_rank PendingOperator
      else operator_rank CurrentOperator > operator_rank PendingOperator)"

text \<open>
  The body of \<open>ParseFormula\<close> is cut at its recursive calls. \<open>ParseValue\<close> is the part
  PARSE VALUE up to the value or to the recursive call for a parenthetical expression
  or a function argument (with the branch for a name in \<open>ParseName\<close> and
  \<open>ParseVariable\<close>), \<open>CloseNested\<close> is what follows that call, \<open>ParseOperator\<close> is
  the part PARSE OPERATOR, and \<open>ApplyOperator\<close> is what a case of the last \<open>switch\<close> does
  with the right-hand operand that the recursive call returned.
\<close>

definition MinusSignPresent :: "parse_state \<Rightarrow> bool" where
  "MinusSignPresent s0 =
     (peek (Formula s0) (SkipWhiteSpace (Formula s0) (FormulaString_m s0)) = CHR ''-'')"

datatype value_phase =
    Return parse_state
  | Value real int parse_state
  | Nested "function_t option" parse_state

text \<open>The pointer after the white space and the sign in front of a value.\<close>

definition SkipSign :: "string \<Rightarrow> nat \<Rightarrow> nat" where
  "SkipSign f p =
     (let p1 = SkipWhiteSpace f p in
      if peek f p1 = CHR ''-'' then p1 + 1
      else if peek f p1 = CHR ''+'' then p1 + 1 else p1)"

text \<open>GET VALUE ... VARIABLE, with the name in \<open>TokenString_m\<close>.\<close>

definition ParseVariable :: "libc \<Rightarrow> string \<Rightarrow> parse_state \<Rightarrow> value_phase" where
  "ParseVariable L TokenString s3 =
     (let VariableID = GetVariableID (Variables_m s3) TokenString in
      if VariableID = NOTFOUND then
        (let r = AssignVariable L (Variables_m s3) TokenString 0.0 in
         if fst r = NOROOM then Return (s3\<lparr>ErrorCode_m := ERROR_variable_full\<rparr>)
         else if fst r = NOHEAP then Return (s3\<lparr>ErrorCode_m := ERROR_heap_full\<rparr>)
         else Value (snd (snd r ! nat (fst r))) (fst r) (s3\<lparr>Variables_m := snd r\<rparr>))
      else Value (snd (Variables_m s3 ! nat VariableID)) VariableID s3)"

text \<open>GET VALUE -- NAME (either function, variable, special constant).\<close>

definition ParseName :: "libc \<Rightarrow> parse_state \<Rightarrow> value_phase" where
  "ParseName L s2 =
     (let f = Formula s2; p2 = FormulaString_m s2;
          TokenLength = GetNextTokenLength f p2
      in
      if TokenLength = 0 then Return (s2\<lparr>ErrorCode_m := ERROR_operand\<rparr>)
      else if TokenLength \<ge> MAXTOKENLENGTH
      then Return (s2\<lparr>ErrorCode_m := ERROR_variable_long\<rparr>)
      else
        (let TokenString = CopyUppercaseString f p2 TokenLength;
             s3 = s2\<lparr>FormulaString_m := p2 + TokenLength\<rparr>
         in
         if TokenString = ''%E'' then Value M_E NOTFOUND s3
         else if TokenString = ''%PI'' then Value M_PI NOTFOUND s3
         else if LookupFunction TokenString \<noteq> FUNC_err then
           (let p4 = SkipWhiteSpace f (FormulaString_m s3) in
            if peek f p4 = CHR ''('' then
              Nested (Some (LookupFunction TokenString))
                (s3\<lparr>FormulaString_m := p4 + 1,
                    ParenthesisLevel_m := ParenthesisLevel_m s3 + 1\<rparr>)
            else Return (s3\<lparr>FormulaString_m := p4, ErrorCode_m := ERROR_operand\<rparr>))
         else ParseVariable L TokenString s3))"

definition ParseValue :: "libc \<Rightarrow> parse_state \<Rightarrow> value_phase" where
  "ParseValue L s0 =
    (let f = Formula s0;
         p2 = SkipSign f (FormulaString_m s0);
         s2 = s0\<lparr>FormulaString_m := p2\<rparr>
     in
     if peek f p2 = CHR ''('' then
       Nested None (s2\<lparr>FormulaString_m := p2 + 1,
                       ParenthesisLevel_m := ParenthesisLevel_m s2 + 1\<rparr>)
     else if isdigit (peek f p2) \<or> peek f p2 = CHR ''.'' then
       Value (fst (c_strtod L (drop p2 f))) NOTFOUND
         (s2\<lparr>FormulaString_m := p2 + snd (c_strtod L (drop p2 f))\<rparr>)
     else ParseName L s2)"

text \<open>
  After the recursive call for a parenthetical expression (\<open>None\<close>) or for the argument
  of a function: \<open>Inl\<close> is a \<open>return DEFAULT_RETURN\<close>, \<open>Inr\<close> the value, and \<open>None\<close> the
  \<open>exit(1)\<close> of \<open>EvaluateFunction\<close>.
\<close>

definition CloseNested ::
  "libc \<Rightarrow> function_t option \<Rightarrow> real \<times> operator_t \<times> parse_state
     \<Rightarrow> (parse_state + real \<times> int \<times> parse_state) option" where
  "CloseNested L CurrentFunction r =
     (let CurrentValue = fst r; CurrentOperator = fst (snd r); s = snd (snd r) in
      if ErrorCode_m s \<noteq> ERROR_none then Some (Inl s)
      else if CurrentOperator \<noteq> OP_CloseParenthesis
      then Some (Inl (s\<lparr>ErrorCode_m := ERROR_openparen\<rparr>))
      else case CurrentFunction of
        None \<Rightarrow> Some (Inr (CurrentValue, NOTFOUND, s))
      | Some fn \<Rightarrow>
          (case EvaluateFunction L fn CurrentValue s of
             None \<Rightarrow> None
           | Some (y, s') \<Rightarrow>
               if ErrorCode_m s' \<noteq> ERROR_none then Some (Inl s')
               else Some (Inr (y, NOTFOUND, s'))))"

definition ParseOperator ::
  "bool \<Rightarrow> real \<Rightarrow> parse_state \<Rightarrow> parse_state + real \<times> operator_t \<times> parse_state" where
  "ParseOperator MinusSign v s =
     (let CurrentValue = (if MinusSign then - v else v);
          p = SkipWhiteSpace (Formula s) (FormulaString_m s)
      in
      case GetOperator (peek (Formula s) p) of
        None \<Rightarrow> Inl (s\<lparr>FormulaString_m := p, ErrorCode_m := ERROR_operator\<rparr>)
      | Some CurrentOperator \<Rightarrow>
          Inr (CurrentValue, CurrentOperator, s\<lparr>FormulaString_m := p + 1\<rparr>))"

definition HasRightOperand :: "operator_t \<Rightarrow> bool" where
  "HasRightOperand CurrentOperator =
     (case CurrentOperator of
        OP_Add \<Rightarrow> True | OP_Subtract \<Rightarrow> True | OP_Multiply \<Rightarrow> True | OP_Divide \<Rightarrow> True
      | OP_RaisePower \<Rightarrow> True | OP_Assignment \<Rightarrow> True | _ \<Rightarrow> False)"

definition ApplyOperator ::
  "libc \<Rightarrow> operator_t \<Rightarrow> real \<Rightarrow> real \<Rightarrow> int \<Rightarrow> parse_state \<Rightarrow> real \<times> parse_state" where
  "ApplyOperator L CurrentOperator CurrentValue v VariableID s =
     (case CurrentOperator of
        OP_Add \<Rightarrow> (CurrentValue + v, s)
      | OP_Subtract \<Rightarrow> (CurrentValue - v, s)
      | OP_Multiply \<Rightarrow> (CurrentValue * v, s)
      | OP_Divide \<Rightarrow>
          (if v = 0 then (0.0, s\<lparr>ErrorCode_m := ERROR_division\<rparr>)
           else (CurrentValue / v, s))
      | OP_RaisePower \<Rightarrow> (c_pow L CurrentValue v, s)
      | OP_Assignment \<Rightarrow>
          (v, s\<lparr>Variables_m :=
                  (Variables_m s)[nat VariableID :=
                     (fst (Variables_m s ! nat VariableID), v)]\<rparr>)
      | _ \<Rightarrow> (CurrentValue, s))"

definition CloseParenthesis :: "parse_state \<Rightarrow> parse_state" where
  "CloseParenthesis s =
     (if ParenthesisLevel_m s - 1 < 0
      then s\<lparr>ParenthesisLevel_m := ParenthesisLevel_m s - 1, ErrorCode_m := ERROR_closeparen\<rparr>
      else s\<lparr>ParenthesisLevel_m := ParenthesisLevel_m s - 1\<rparr>)"

text \<open>
  \<open>ParseFormula\<close> returns its value, the operator it leaves in \<open>*PendingOperator\<close> and
  the state. The first argument bounds the number of nested calls and loop rounds;
  \<open>None\<close> says that the bound was too small (or that the process exited). A \<open>return\<close>
  before the end of the C function leaves \<open>*PendingOperator\<close> as it was.
  \<open>ApplyLoop\<close> is the \<open>while (ApplyOperator)\<close> loop with the two statements after it;
  an operator without a case in the \<open>switch\<close> leaves everything as it is and the loop
  goes round again.
\<close>

fun ParseFormula ::
  "nat \<Rightarrow> libc \<Rightarrow> operator_t \<Rightarrow> parse_state \<Rightarrow> (real \<times> operator_t \<times> parse_state) option"
and ApplyLoop ::
  "nat \<Rightarrow> libc \<Rightarrow> operator_t \<Rightarrow> real \<Rightarrow> operator_t \<Rightarrow> int \<Rightarrow> parse_state
     \<Rightarrow> (real \<times> operator_t \<times> parse_state) option"
where
  "ParseFormula 0 L PendingOperator s0 = None"
| "ParseFormula (Suc n) L PendingOperator s0 =
    (case
       (case ParseValue L s0 of
          Return s \<Rightarrow> Some (Inl s)
        | Value v VariableID s \<Rightarrow> Some (Inr (v, VariableID, s))
        | Nested CurrentFunction s \<Rightarrow>
            (case ParseFormula n L OP_OpenParenthesis s of
               None \<Rightarrow> None
             | Some r \<Rightarrow> CloseNested L CurrentFunction r))
     of
       None \<Rightarrow> None
     | Some (Inl s) \<Rightarrow> Some (DEFAULT_RETURN, PendingOperator, s)
     | Some (Inr (v, VariableID, s)) \<Rightarrow>
         (case ParseOperator (MinusSignPresent s0) v s of
            Inl s' \<Rightarrow> Some (DEFAULT_RETURN, PendingOperator, s')
          | Inr (CurrentValue, CurrentOperator, s') \<Rightarrow>
              ApplyLoop n L PendingOperator CurrentValue CurrentOperator VariableID s'))"
| "ApplyLoop 0 L PendingOperator CurrentValue CurrentOperator VariableID s = None"
| "ApplyLoop (Suc n) L PendingOperator CurrentValue CurrentOperator VariableID s =
    (if \<not> (ErrorCode_m s = ERROR_none \<and> ApplyCriteria CurrentOperator PendingOperator)
     then Some (CurrentValue, CurrentOperator, s)
     else if CurrentOperator = OP_CloseParenthesis
     then ApplyLoop n L PendingOperator CurrentValue CurrentOperator VariableID
            (CloseParenthesis s)
     else if CurrentOperator = OP_Assignment \<and> VariableID = NOTFOUND
     then Some (DEFAULT_RETURN, PendingOperator, s\<lparr>ErrorCode_m := ERROR_variable_expected\<rparr>)
     else if HasRightOperand CurrentOperator
     then
       (case ParseFormula n L CurrentOperator s of
          None \<Rightarrow> None
        | Some (v, op, s') \<Rightarrow>
            ApplyLoop n L PendingOperator
              (fst (ApplyOperator L CurrentOperator CurrentValue v VariableID s'))
              op VariableID
              (snd (ApplyOperator L CurrentOperator CurrentValue v VariableID s')))
     else ApplyLoop n L PendingOperator CurrentValue CurrentOperator VariableID s)"

subsection \<open>Exported subroutines\<close>

record evalform_result =
  ValueResult :: real
  ErrorResult :: int
  f_end :: nat
  Variables_end :: variables

text \<open>
  \<open>evalform\<close> takes the formula and the variables that earlier calls left, and returns
  the value, the error code as an integer, the offset of the pointer it stores in \<open>*f\<close>
  and the variables.
\<close>

definition evalform :: "nat \<Rightarrow> libc \<Rightarrow> string \<Rightarrow> variables \<Rightarrow> evalform_result option" where
  "evalform n L f vars =
     (case ParseFormula n L OP_BeginLine
             \<lparr>Formula = f, FormulaString_m = 0, ParenthesisLevel_m = 0,
              ErrorCode_m = ERROR_none, Variables_m = vars\<rparr> of
        None \<Rightarrow> None
      | Some (v, CurrentOperator, s) \<Rightarrow>
          Some \<lparr>ValueResult = v,
                ErrorResult = errorcode_int (ErrorCode_m s),
                f_end = FormulaString_m s,
                Variables_end = Variables_m s\<rparr>)"

subsection \<open>An instance of the C library\<close>

text \<open>
  \<open>strtod_decimal\<close> reads a decimal floating-point constant as the C standard describes
  it for \<open>strtod\<close>: a nonempty sequence of digits optionally containing a point, then an
  optional exponent part. The parser calls it only on a digit or a point, so the white
  space and the sign that \<open>strtod\<close> would skip are left out. The value is the exact one.
\<close>

definition digits_value :: "string \<Rightarrow> nat" where
  "digits_value ds = foldl (\<lambda>a c. 10 * a + ((of_char c :: nat) - 48)) 0 ds"

definition strtod_exponent :: "string \<Rightarrow> int \<times> nat" where
  "strtod_exponent r =
     (if r \<noteq> [] \<and> (hd r = CHR ''e'' \<or> hd r = CHR ''E'') then
        (let r1 = tl r;
             sign = (r1 \<noteq> [] \<and> (hd r1 = CHR ''-'' \<or> hd r1 = CHR ''+''));
             r2 = (if sign then tl r1 else r1);
             ed = takeWhile isdigit r2
         in if ed = [] then (0, 0)
            else (if r1 \<noteq> [] \<and> hd r1 = CHR ''-'' then - int (digits_value ed)
                  else int (digits_value ed),
                  1 + (if sign then 1 else 0) + length ed))
      else (0, 0))"

definition strtod_decimal :: "string \<Rightarrow> real \<times> nat" where
  "strtod_decimal str =
     (let ip = takeWhile isdigit str;
          r1 = drop (length ip) str;
          point = (r1 \<noteq> [] \<and> hd r1 = CHR ''.'');
          fp = (if point then takeWhile isdigit (tl r1) else []);
          k = length ip + (if point then 1 + length fp else 0);
          ex = strtod_exponent (drop k str)
      in if ip = [] \<and> fp = [] then (0, 0)
         else (real (digits_value (ip @ fp)) / 10 ^ length fp * 10 powi fst ex, k + snd ex))"

definition libc_real :: libc where
  "libc_real =
     \<lparr>c_strtod = strtod_decimal,
      c_calloc_ok = (\<lambda>k. True),
      c_pow = (\<lambda>x y. if y = of_int \<lfloor>y\<rfloor> then x powi \<lfloor>y\<rfloor> else x powr y),
      c_sin = sin, c_cos = cos, c_tan = tan, c_exp = exp,
      c_log = ln, c_log10 = log 10, c_fabs = abs,
      c_acos = arccos, c_asin = arcsin, c_atan = arctan, c_sqrt = sqrt,
      c_ceil = (\<lambda>x. of_int \<lceil>x\<rceil>), c_floor = (\<lambda>x. of_int \<lfloor>x\<rfloor>)\<rparr>"


subsection \<open>The state that a step leaves\<close>

fun value_phase_state :: "value_phase \<Rightarrow> parse_state" where
  "value_phase_state (Return s) = s"
| "value_phase_state (Value v VariableID s) = s"
| "value_phase_state (Nested CurrentFunction s) = s"

definition sum_state :: "parse_state + 'a \<times> 'b \<times> parse_state \<Rightarrow> parse_state" where
  "sum_state x = (case x of Inl s \<Rightarrow> s | Inr y \<Rightarrow> snd (snd y))"

text \<open>
  What a call that returns has done to the pointer: the formula is the same, and unless
  an error is set the operator it returns is one that the formula can hold, the pointer
  has moved forward (\<open>strict\<close>) or not back, and it is within the formula unless the
  terminating null character has been read.
\<close>

definition result_ok :: "bool \<Rightarrow> parse_state \<Rightarrow> real \<times> operator_t \<times> parse_state \<Rightarrow> bool" where
  "result_ok strict s r =
     (Formula (snd (snd r)) = Formula s
      \<and> (ErrorCode_m (snd (snd r)) \<noteq> ERROR_none
          \<or> (fst (snd r) \<noteq> OP_BeginLine \<and> fst (snd r) \<noteq> OP_OpenParenthesis
              \<and> (if strict then FormulaString_m s < FormulaString_m (snd (snd r))
                  else FormulaString_m s \<le> FormulaString_m (snd (snd r)))
              \<and> (fst (snd r) = OP_EndLine
                  \<or> FormulaString_m (snd (snd r)) \<le> length (Formula s)))))"

section \<open>Running the parser\<close>

declare ParseFormula.simps(2) [simp del] ApplyLoop.simps(2) [simp del]

lemma twelve:
  "(12::nat) = Suc (Suc (Suc (Suc (Suc (Suc (Suc (Suc (Suc (Suc (Suc (Suc 0)))))))))))"
  by simp

lemmas parser_defs = ParseValue_def ParseName_def ParseVariable_def SkipSign_def
  CloseNested_def ParseOperator_def
  HasRightOperand_def ApplyOperator_def CloseParenthesis_def MinusSignPresent_def
  ApplyCriteria_def GetOperator_def SkipWhiteSpace_def GetNextTokenLength_def
  CopyUppercaseString_def peek_def is_white_def isdigit_def isupper_def islower_def
  isalnum_def toupper_def LookupFunction_def GetVariableID_def AssignVariable_def
  EvaluateFunction_def ArgumentOk_def NOTFOUND_def NOROOM_def NOHEAP_def
  DEFAULT_RETURN_def MAXNUMBERVAR_def MAXTOKENLENGTH_def char_of_def bit_Suc_0_iff

lemmas run_simps = evalform_def ParseFormula.simps(2) ApplyLoop.simps(2) parser_defs
  libc_real_def strtod_decimal_def strtod_exponent_def digits_value_def

subsection \<open>A larger bound gives the same result\<close>

lemma fuel_Suc:
  "(\<forall>L p s r. ParseFormula n L p s = Some r \<longrightarrow> ParseFormula (Suc n) L p s = Some r) \<and>
   (\<forall>L p cv cur vid s r. ApplyLoop n L p cv cur vid s = Some r
       \<longrightarrow> ApplyLoop (Suc n) L p cv cur vid s = Some r)"
proof (induction n)
  case 0
  then show ?case by simp
next
  case (Suc n)
  have IH1: "\<And>L p s r. ParseFormula n L p s = Some r \<Longrightarrow> ParseFormula (Suc n) L p s = Some r"
    using Suc by blast
  have IH2: "\<And>L p cv cur vid s r. ApplyLoop n L p cv cur vid s = Some r
      \<Longrightarrow> ApplyLoop (Suc n) L p cv cur vid s = Some r"
    using Suc by blast
  show ?case
  proof (intro conjI allI impI)
    fix L p s r
    assume a: "ParseFormula (Suc n) L p s = Some r"
    have op: "\<And>v vid sa. (case ParseOperator (MinusSignPresent s) v sa of
            Inl s' \<Rightarrow> Some (DEFAULT_RETURN, p, s')
          | Inr (cv, cur, s') \<Rightarrow> ApplyLoop n L p cv cur vid s') = Some r
       \<Longrightarrow> (case ParseOperator (MinusSignPresent s) v sa of
            Inl s' \<Rightarrow> Some (DEFAULT_RETURN, p, s')
          | Inr (cv, cur, s') \<Rightarrow> ApplyLoop (Suc n) L p cv cur vid s') = Some r"
      by (auto split: sum.splits dest: IH2)
    show "ParseFormula (Suc (Suc n)) L p s = Some r"
    proof (cases "ParseValue L s")
      case (Return s1)
      with a show ?thesis
        by (simp add: ParseFormula.simps(2)[of "Suc n"] ParseFormula.simps(2)[of n])
    next
      case (Value v vid s1)
      with a op[where v=v and vid=vid and sa=s1] show ?thesis
        by (simp add: ParseFormula.simps(2)[of "Suc n"] ParseFormula.simps(2)[of n])
    next
      case (Nested fn s1)
      show ?thesis
      proof (cases "ParseFormula n L OP_OpenParenthesis s1")
        case None
        with a Nested show ?thesis by (simp add: ParseFormula.simps(2)[of n])
      next
        case (Some r1)
        note r1 = Some IH1[OF Some]
        show ?thesis
        proof (cases "CloseNested L fn r1")
          case None
          with a Nested r1 show ?thesis by (simp add: ParseFormula.simps(2)[of n])
        next
          case (Some x)
          show ?thesis
          proof (cases x)
            case (Inl s2)
            with a Nested r1 Some show ?thesis
              by (simp add: ParseFormula.simps(2)[of "Suc n"] ParseFormula.simps(2)[of n])
          next
            case (Inr y)
            obtain v vid s2 where y: "y = (v, vid, s2)" by (cases y) auto
            with a Nested r1 Some Inr op[where v=v and vid=vid and sa=s2] show ?thesis
              by (simp add: ParseFormula.simps(2)[of "Suc n"] ParseFormula.simps(2)[of n])
          qed
        qed
      qed
    qed
  next
    fix L p cv cur vid s r
    assume a: "ApplyLoop (Suc n) L p cv cur vid s = Some r"
    have rhs: "\<And>r. (case ParseFormula n L cur s of None \<Rightarrow> None
        | Some (v, op, s') \<Rightarrow> ApplyLoop n L p (fst (ApplyOperator L cur cv v vid s')) op vid
              (snd (ApplyOperator L cur cv v vid s'))) = Some r \<Longrightarrow>
       (case ParseFormula (Suc n) L cur s of None \<Rightarrow> None
        | Some (v, op, s') \<Rightarrow> ApplyLoop (Suc n) L p (fst (ApplyOperator L cur cv v vid s')) op vid
              (snd (ApplyOperator L cur cv v vid s'))) = Some r"
    proof -
      fix r
      assume h: "(case ParseFormula n L cur s of None \<Rightarrow> None
        | Some (v, op, s') \<Rightarrow> ApplyLoop n L p (fst (ApplyOperator L cur cv v vid s')) op vid
              (snd (ApplyOperator L cur cv v vid s'))) = Some r"
      then obtain v op s' where pf: "ParseFormula n L cur s = Some (v, op, s')"
        by (cases "ParseFormula n L cur s") auto
      from h pf have "ApplyLoop n L p (fst (ApplyOperator L cur cv v vid s')) op vid
              (snd (ApplyOperator L cur cv v vid s')) = Some r" by simp
      from IH2[OF this] IH1[OF pf]
      show "(case ParseFormula (Suc n) L cur s of None \<Rightarrow> None
        | Some (v, op, s') \<Rightarrow> ApplyLoop (Suc n) L p (fst (ApplyOperator L cur cv v vid s')) op vid
              (snd (ApplyOperator L cur cv v vid s'))) = Some r" by simp
    qed
    note a' = a[unfolded ApplyLoop.simps(2)]
    show "ApplyLoop (Suc (Suc n)) L p cv cur vid s = Some r"
      unfolding ApplyLoop.simps(2)[of "Suc n"]
      using a' rhs[of r] IH2[of L p cv cur vid s r]
        IH2[of L p cv cur vid "CloseParenthesis s" r]
      by (auto split: if_splits)
  qed
qed

lemma ParseFormula_fuel:
  "ParseFormula n L p s = Some r \<Longrightarrow> ParseFormula (n + k) L p s = Some r"
  by (induction k) (simp_all add: fuel_Suc)

lemma ApplyLoop_fuel:
  "ApplyLoop n L p cv cur vid s = Some r \<Longrightarrow> ApplyLoop (n + k) L p cv cur vid s = Some r"
  by (induction k) (simp_all add: fuel_Suc)

lemma evalform_fuel:
  "evalform n L f vars = Some r \<Longrightarrow> evalform (n + k) L f vars = Some r"
  by (auto simp: evalform_def ParseFormula_fuel split: option.splits)

section \<open>Precedence and associativity\<close>

text \<open>
  C1. The operators are totally ordered, end of line below begin of line below close
  parenthesis below open parenthesis below assignment below add below subtract below
  multiply below divide below raise power. With any table of variables and any bound of
  at least 12, \<open>evalform\<close> on \<open>2 + 3 * 4\<close> returns 14 without an error, and on
  \<open>2 ^ 3 ^ 2\<close> it returns 64, which is (2^3)^2.
\<close>

theorem precedence_and_associativity:
  "operator_rank OP_EndLine < operator_rank OP_BeginLine
   \<and> operator_rank OP_BeginLine < operator_rank OP_CloseParenthesis
   \<and> operator_rank OP_CloseParenthesis < operator_rank OP_OpenParenthesis
   \<and> operator_rank OP_OpenParenthesis < operator_rank OP_Assignment
   \<and> operator_rank OP_Assignment < operator_rank OP_Add
   \<and> operator_rank OP_Add < operator_rank OP_Subtract
   \<and> operator_rank OP_Subtract < operator_rank OP_Multiply
   \<and> operator_rank OP_Multiply < operator_rank OP_Divide
   \<and> operator_rank OP_Divide < operator_rank OP_RaisePower
   \<and> evalform (12 + k) libc_real ''2 + 3 * 4'' vars =
       Some \<lparr>ValueResult = 14, ErrorResult = 0, f_end = 10, Variables_end = vars\<rparr>
   \<and> evalform (12 + k) libc_real ''2 ^ 3 ^ 2'' vars =
       Some \<lparr>ValueResult = 64, ErrorResult = 0, f_end = 10, Variables_end = vars\<rparr>
   \<and> c_pow libc_real (c_pow libc_real 2 3) 2 = 64"
proof -
  have a: "evalform 12 libc_real ''2 + 3 * 4'' vars =
       Some \<lparr>ValueResult = 14, ErrorResult = 0, f_end = 10, Variables_end = vars\<rparr>"
    by (subst twelve) (simp add: run_simps)
  have b: "evalform 12 libc_real ''2 ^ 3 ^ 2'' vars =
       Some \<lparr>ValueResult = 64, ErrorResult = 0, f_end = 10, Variables_end = vars\<rparr>"
    by (subst twelve) (simp add: run_simps)
  have c: "c_pow libc_real (c_pow libc_real 2 3) 2 = 64"
    by (simp add: libc_real_def)
  show ?thesis
    using evalform_fuel[OF a, of k] evalform_fuel[OF b, of k] c by simp
qed

theorem precedence_and_associativity_witness:
  "evalform 12 libc_real ''2 + 3 * 4'' [] =
       Some \<lparr>ValueResult = 14, ErrorResult = 0, f_end = 10, Variables_end = []\<rparr>
   \<and> evalform 13 libc_real ''2 ^ 3 ^ 2'' [(''X'', 1)] =
       Some \<lparr>ValueResult = 64, ErrorResult = 0, f_end = 10, Variables_end = [(''X'', 1)]\<rparr>"
  using precedence_and_associativity[of 0 "[]"]
    precedence_and_associativity[of 1 "[(''X'', 1)]"]
  by simp

section \<open>Function domain validation\<close>

text \<open>
  C5. For a function of the registry and a state without an error, \<open>EvaluateFunction\<close>
  sets the error function-parameter-out-of-range and returns 0 exactly when the function
  is LOG, LOG10 or SQRT and \<open>x \<le> 0\<close>, or ACOS or ASIN and \<open>x < -1\<close> or \<open>x \<ge> 1\<close>. In every
  other case, and always for SIN, COS, TAN, EXP, ABS, ATAN and INT, it returns a value
  and leaves the state as it was.
\<close>

theorem function_domain_validation:
  assumes "InputFunction \<noteq> FUNC_err" and "ErrorCode_m s = ERROR_none"
  shows "((InputFunction \<in> {FUNC_log, FUNC_log10, FUNC_sqrt} \<and> x \<le> 0
           \<or> InputFunction \<in> {FUNC_acos, FUNC_asin} \<and> (x < - 1 \<or> x \<ge> 1))
          \<longrightarrow> EvaluateFunction L InputFunction x s =
                Some (0, s\<lparr>ErrorCode_m := ERROR_parameter\<rparr>))
       \<and> (\<not> (InputFunction \<in> {FUNC_log, FUNC_log10, FUNC_sqrt} \<and> x \<le> 0
           \<or> InputFunction \<in> {FUNC_acos, FUNC_asin} \<and> (x < - 1 \<or> x \<ge> 1))
          \<longrightarrow> (\<exists>v. EvaluateFunction L InputFunction x s = Some (v, s)))
       \<and> ((\<exists>v s'. EvaluateFunction L InputFunction x s = Some (v, s')
               \<and> ErrorCode_m s' = ERROR_parameter)
          \<longleftrightarrow> (InputFunction \<in> {FUNC_log, FUNC_log10, FUNC_sqrt} \<and> x \<le> 0
           \<or> InputFunction \<in> {FUNC_acos, FUNC_asin} \<and> (x < - 1 \<or> x \<ge> 1)))
       \<and> (InputFunction \<in> {FUNC_sin, FUNC_cos, FUNC_tan, FUNC_exp, FUNC_fabs, FUNC_atan, FUNC_int}
          \<longrightarrow> (\<exists>v. EvaluateFunction L InputFunction x s = Some (v, s)))"
  using assms
  by (cases InputFunction) (auto simp: EvaluateFunction_def ArgumentOk_def DEFAULT_RETURN_def)

theorem function_domain_validation_witness:
  "EvaluateFunction libc_real FUNC_asin 1
     \<lparr>Formula = ''asin(1)'', FormulaString_m = 6, ParenthesisLevel_m = 1,
      ErrorCode_m = ERROR_none, Variables_m = []\<rparr>
   = Some (0, \<lparr>Formula = ''asin(1)'', FormulaString_m = 6, ParenthesisLevel_m = 1,
      ErrorCode_m = ERROR_parameter, Variables_m = []\<rparr>)
   \<and> (\<exists>v. EvaluateFunction libc_real FUNC_asin (- 1)
     \<lparr>Formula = ''asin(-1)'', FormulaString_m = 7, ParenthesisLevel_m = 1,
      ErrorCode_m = ERROR_none, Variables_m = []\<rparr>
   = Some (v, \<lparr>Formula = ''asin(-1)'', FormulaString_m = 7, ParenthesisLevel_m = 1,
      ErrorCode_m = ERROR_none, Variables_m = []\<rparr>))"
  using function_domain_validation[of FUNC_asin
      "\<lparr>Formula = ''asin(1)'', FormulaString_m = 6, ParenthesisLevel_m = 1,
      ErrorCode_m = ERROR_none, Variables_m = []\<rparr>" 1 libc_real]
    function_domain_validation[of FUNC_asin
      "\<lparr>Formula = ''asin(-1)'', FormulaString_m = 7, ParenthesisLevel_m = 1,
      ErrorCode_m = ERROR_none, Variables_m = []\<rparr>" "- 1" libc_real]
  by simp

section \<open>Division by zero\<close>

text \<open>
  C6. When the loop applies a division and the call for the right-hand operand returns
  the divisor, a divisor equal to 0 sets the error division-by-zero and makes the loop
  return 0; a divisor other than 0 makes the loop go on with the quotient and with the
  state that the call returned, so the division itself sets no error. \<open>evalform\<close> on
  \<open>1/0\<close> returns 0 with the error division-by-zero, and on \<open>1/4\<close> the quotient without
  an error.
\<close>

theorem division_by_zero:
  assumes "ErrorCode_m s = ERROR_none"
    and "ApplyCriteria OP_Divide PendingOperator"
    and "ParseFormula n L OP_Divide s = Some (DivisorValue, op, s')"
  shows "(DivisorValue = 0 \<longrightarrow>
            ApplyLoop (Suc n) L PendingOperator CurrentValue OP_Divide VariableID s =
              Some (0, op, s'\<lparr>ErrorCode_m := ERROR_division\<rparr>))
       \<and> (DivisorValue \<noteq> 0 \<longrightarrow>
            ApplyLoop (Suc n) L PendingOperator CurrentValue OP_Divide VariableID s =
              ApplyLoop n L PendingOperator (CurrentValue / DivisorValue) op VariableID s')
       \<and> evalform (12 + k) libc_real ''1/0'' vars =
            Some \<lparr>ValueResult = 0, ErrorResult = 5, f_end = 4, Variables_end = vars\<rparr>
       \<and> evalform (12 + k) libc_real ''1/4'' vars =
            Some \<lparr>ValueResult = 1 / 4, ErrorResult = 0, f_end = 4, Variables_end = vars\<rparr>"
proof -
  obtain m where n: "n = Suc m"
    using assms(3) by (cases n) auto
  have z: "DivisorValue = 0 \<Longrightarrow>
            ApplyLoop (Suc n) L PendingOperator CurrentValue OP_Divide VariableID s =
              Some (0, op, s'\<lparr>ErrorCode_m := ERROR_division\<rparr>)"
  proof -
    assume d: "DivisorValue = 0"
    have "ApplyLoop (Suc n) L PendingOperator CurrentValue OP_Divide VariableID s =
            ApplyLoop n L PendingOperator 0 op VariableID (s'\<lparr>ErrorCode_m := ERROR_division\<rparr>)"
      using assms d
      by (simp add: ApplyLoop.simps(2)[of n] HasRightOperand_def ApplyOperator_def)
    also have "\<dots> = Some (0, op, s'\<lparr>ErrorCode_m := ERROR_division\<rparr>)"
      by (simp add: n ApplyLoop.simps(2))
    finally show ?thesis .
  qed
  have nz: "DivisorValue \<noteq> 0 \<Longrightarrow>
            ApplyLoop (Suc n) L PendingOperator CurrentValue OP_Divide VariableID s =
              ApplyLoop n L PendingOperator (CurrentValue / DivisorValue) op VariableID s'"
    using assms
    by (simp add: ApplyLoop.simps(2)[of n] HasRightOperand_def ApplyOperator_def)
  have a: "evalform 12 libc_real ''1/0'' vars =
            Some \<lparr>ValueResult = 0, ErrorResult = 5, f_end = 4, Variables_end = vars\<rparr>"
    by (subst twelve) (simp add: run_simps)
  have b: "evalform 12 libc_real ''1/4'' vars =
            Some \<lparr>ValueResult = 1 / 4, ErrorResult = 0, f_end = 4, Variables_end = vars\<rparr>"
    by (subst twelve) (simp add: run_simps)
  show ?thesis
    using z nz evalform_fuel[OF a, of k] evalform_fuel[OF b, of k] by simp
qed

theorem division_by_zero_witness:
  "ApplyLoop (Suc (Suc (Suc 0))) libc_real OP_BeginLine 1 OP_Divide NOTFOUND
      \<lparr>Formula = ''1/0'', FormulaString_m = 2, ParenthesisLevel_m = 0,
       ErrorCode_m = ERROR_none, Variables_m = []\<rparr>
    = Some (0, OP_EndLine, \<lparr>Formula = ''1/0'', FormulaString_m = 4, ParenthesisLevel_m = 0,
       ErrorCode_m = ERROR_division, Variables_m = []\<rparr>)
   \<and> evalform 12 libc_real ''1/0'' [] =
            Some \<lparr>ValueResult = 0, ErrorResult = 5, f_end = 4, Variables_end = []\<rparr>"
  using division_by_zero[of
      "\<lparr>Formula = ''1/0'', FormulaString_m = 2, ParenthesisLevel_m = 0,
       ErrorCode_m = ERROR_none, Variables_m = []\<rparr>"
      OP_BeginLine "Suc (Suc 0)" libc_real 0 OP_EndLine
      "\<lparr>Formula = ''1/0'', FormulaString_m = 4, ParenthesisLevel_m = 0,
       ErrorCode_m = ERROR_none, Variables_m = []\<rparr>" 1 NOTFOUND 0 "[]"]
  by (simp add: ParseFormula.simps(2) ApplyLoop.simps(2) parser_defs libc_real_def
      strtod_decimal_def strtod_exponent_def digits_value_def)

section \<open>Empty and blank formulas\<close>

lemma is_white_iff:
  "is_white c \<longleftrightarrow> c = CHR '' '' \<or> c = CHR 0x09 \<or> c = CHR 0x0A \<or> c = CHR 0x0D"
proof -
  have "\<And>k. ((of_char c :: nat) = of_char k) = (c = k)" by simp
  from this[of "CHR 0x09"] this[of "CHR 0x0A"] this[of "CHR 0x0D"]
  show ?thesis by (simp add: is_white_def)
qed

lemma SkipWhiteSpace_all_white:
  "list_all is_white ws \<Longrightarrow> \<not> is_white (peek (ws @ rest) (length ws))
     \<Longrightarrow> SkipWhiteSpace (ws @ rest) 0 = length ws"
  by (cases rest) (simp_all add: SkipWhiteSpace_def peek_def takeWhile_append2 list_all_iff takeWhile_eq_all_conv[THEN iffD2])

text \<open>
  C10. For the empty string and for every formula made of spaces, tabs, newlines and
  carriage returns only, \<open>evalform\<close> returns 0 with the error bad-operand, leaves the
  pointer on the terminating null character, and leaves the variables as they were.
\<close>

theorem whitespace_only:
  assumes "list_all (\<lambda>c. c = CHR '' '' \<or> c = CHR 0x09 \<or> c = CHR 0x0A \<or> c = CHR 0x0D) f"
  shows "evalform (Suc n) L f vars =
           Some \<lparr>ValueResult = 0, ErrorResult = 1, f_end = length f, Variables_end = vars\<rparr>"
proof -
  have w: "list_all is_white f"
    using assms by (simp add: is_white_iff[abs_def])
  have sk: "SkipWhiteSpace f 0 = length f"
    using SkipWhiteSpace_all_white[OF w, of "[]"] by (simp add: peek_def is_white_def)
  have pv: "ParseValue L \<lparr>Formula = f, FormulaString_m = 0, ParenthesisLevel_m = 0,
              ErrorCode_m = ERROR_none, Variables_m = vars\<rparr>
     = Return \<lparr>Formula = f, FormulaString_m = length f, ParenthesisLevel_m = 0,
              ErrorCode_m = ERROR_operand, Variables_m = vars\<rparr>"
    by (simp add: ParseValue_def ParseName_def SkipSign_def sk peek_def
        GetNextTokenLength_def isdigit_def isupper_def islower_def)
  show ?thesis
    by (simp add: evalform_def ParseFormula.simps(2) pv DEFAULT_RETURN_def)
qed

theorem whitespace_only_witness:
  "evalform (Suc 0) libc_real [] [(''A'', 1)] =
           Some \<lparr>ValueResult = 0, ErrorResult = 1, f_end = 0, Variables_end = [(''A'', 1)]\<rparr>
   \<and> evalform (Suc 0) libc_real [CHR '' '', CHR 0x09, CHR 0x0A, CHR 0x0D] [] =
           Some \<lparr>ValueResult = 0, ErrorResult = 1, f_end = 4, Variables_end = []\<rparr>"
  using whitespace_only[of "[]" 0 libc_real "[(''A'', 1)]"]
    whitespace_only[of "[CHR '' '', CHR 0x09, CHR 0x0A, CHR 0x0D]" 0 libc_real "[]"]
  by simp

section \<open>Invariants of the parser\<close>

text \<open>
  A property of the state that every step of the parser keeps holds of the state that
  \<open>ParseFormula\<close> and the loop return.
\<close>

lemma ParseFormula_invariant:
  assumes pv: "\<And>L s. P s \<Longrightarrow> P (value_phase_state (ParseValue L s))"
    and cn: "\<And>L fn r x. P (snd (snd r)) \<Longrightarrow> CloseNested L fn r = Some x \<Longrightarrow> P (sum_state x)"
    and po: "\<And>m v s. P s \<Longrightarrow> P (sum_state (ParseOperator m v s))"
    and ao: "\<And>L cur cv v vid s. P s \<Longrightarrow> P (snd (ApplyOperator L cur cv v vid s))"
    and cp: "\<And>s. P s \<Longrightarrow> P (CloseParenthesis s)"
    and ve: "\<And>s. P s \<Longrightarrow> P (s\<lparr>ErrorCode_m := ERROR_variable_expected\<rparr>)"
  shows "(\<forall>L p s r. P s \<longrightarrow> ParseFormula n L p s = Some r \<longrightarrow> P (snd (snd r))) \<and>
         (\<forall>L p cv cur vid s r. P s \<longrightarrow> ApplyLoop n L p cv cur vid s = Some r
             \<longrightarrow> P (snd (snd r)))"
proof (induction n)
  case 0
  then show ?case by simp
next
  case (Suc n)
  have IH1: "\<And>L p s r. P s \<Longrightarrow> ParseFormula n L p s = Some r \<Longrightarrow> P (snd (snd r))"
    using Suc by blast
  have IH2: "\<And>L p cv cur vid s r. P s \<Longrightarrow> ApplyLoop n L p cv cur vid s = Some r
      \<Longrightarrow> P (snd (snd r))"
    using Suc by blast
  show ?case
  proof (intro conjI allI impI)
    fix L p s r
    assume P: "P s" and a: "ParseFormula (Suc n) L p s = Some r"
    note a' = a[unfolded ParseFormula.simps(2)]
    have op: "\<And>v vid sa. P sa \<Longrightarrow> (case ParseOperator (MinusSignPresent s) v sa of
            Inl s' \<Rightarrow> Some (DEFAULT_RETURN, p, s')
          | Inr (cv, cur, s') \<Rightarrow> ApplyLoop n L p cv cur vid s') = Some r
       \<Longrightarrow> P (snd (snd r))"
    proof -
      fix v vid sa
      assume Pa: "P sa" and h: "(case ParseOperator (MinusSignPresent s) v sa of
            Inl s' \<Rightarrow> Some (DEFAULT_RETURN, p, s')
          | Inr (cv, cur, s') \<Rightarrow> ApplyLoop n L p cv cur vid s') = Some r"
      from po[OF Pa, of "MinusSignPresent s" v]
      have Ps: "P (sum_state (ParseOperator (MinusSignPresent s) v sa))" .
      show "P (snd (snd r))"
      proof (cases "ParseOperator (MinusSignPresent s) v sa")
        case (Inl s')
        with h Ps show ?thesis by (auto simp: sum_state_def)
      next
        case (Inr y)
        obtain cv cur s' where y: "y = (cv, cur, s')" by (cases y) auto
        from Ps Inr y have "P s'" by (simp add: sum_state_def)
        moreover from h Inr y have "ApplyLoop n L p cv cur vid s' = Some r" by simp
        ultimately show ?thesis by (rule IH2)
      qed
    qed
    from pv[OF P, of L] have Pv: "P (value_phase_state (ParseValue L s))" .
    show "P (snd (snd r))"
    proof (cases "ParseValue L s")
      case (Return s1)
      with a' Pv show ?thesis by auto
    next
      case (Value v vid s1)
      with a' Pv op[where sa=s1 and v=v and vid=vid] show ?thesis by simp
    next
      case (Nested fn s1)
      with Pv have P1: "P s1" by simp
      from a' Nested obtain r1 where r1: "ParseFormula n L OP_OpenParenthesis s1 = Some r1"
        by (cases "ParseFormula n L OP_OpenParenthesis s1") auto
      from IH1[OF P1 r1] have Pr1: "P (snd (snd r1))" .
      from a' Nested r1 obtain x where x: "CloseNested L fn r1 = Some x"
        by (cases "CloseNested L fn r1") auto
      from cn[OF Pr1 x] have Px: "P (sum_state x)" .
      show ?thesis
      proof (cases x)
        case (Inl s2)
        with a' Nested r1 x Px show ?thesis by (auto simp: sum_state_def)
      next
        case (Inr y)
        obtain v vid s2 where y: "y = (v, vid, s2)" by (cases y) auto
        with a' Nested r1 x Px Inr op[where sa=s2 and v=v and vid=vid] show ?thesis
          by (simp add: sum_state_def)
      qed
    qed
  next
    fix L p cv cur vid s r
    assume P: "P s" and a: "ApplyLoop (Suc n) L p cv cur vid s = Some r"
    note a' = a[unfolded ApplyLoop.simps(2)]
    have rhs: "(case ParseFormula n L cur s of None \<Rightarrow> None
        | Some (v, op, s') \<Rightarrow> ApplyLoop n L p (fst (ApplyOperator L cur cv v vid s')) op vid
              (snd (ApplyOperator L cur cv v vid s'))) = Some r \<Longrightarrow> P (snd (snd r))"
    proof -
      assume h: "(case ParseFormula n L cur s of None \<Rightarrow> None
        | Some (v, op, s') \<Rightarrow> ApplyLoop n L p (fst (ApplyOperator L cur cv v vid s')) op vid
              (snd (ApplyOperator L cur cv v vid s'))) = Some r"
      then obtain v op s' where pf: "ParseFormula n L cur s = Some (v, op, s')"
        by (cases "ParseFormula n L cur s") auto
      from h pf have al: "ApplyLoop n L p (fst (ApplyOperator L cur cv v vid s')) op vid
              (snd (ApplyOperator L cur cv v vid s')) = Some r" by simp
      from IH1[OF P pf] have "P s'" by simp
      from IH2[OF ao[OF this] al] show "P (snd (snd r))" .
    qed
    show "P (snd (snd r))"
    proof (cases "\<not> (ErrorCode_m s = ERROR_none \<and> ApplyCriteria cur p)")
      case True
      with a' P show ?thesis by auto
    next
      case go: False
      show ?thesis
      proof (cases "cur = OP_CloseParenthesis")
        case True
        with a' go have "ApplyLoop n L p cv cur vid (CloseParenthesis s) = Some r" by simp
        from IH2[OF cp[OF P] this] show ?thesis .
      next
        case nc: False
        show ?thesis
        proof (cases "cur = OP_Assignment \<and> vid = NOTFOUND")
          case True
          with a' go nc ve[OF P] show ?thesis by auto
        next
          case na: False
          show ?thesis
          proof (cases "HasRightOperand cur")
            case True
            with a' go nc na have "(case ParseFormula n L cur s of None \<Rightarrow> None
              | Some (v, op, s') \<Rightarrow> ApplyLoop n L p (fst (ApplyOperator L cur cv v vid s')) op vid
              (snd (ApplyOperator L cur cv v vid s'))) = Some r" by auto
            then show ?thesis by (rule rhs)
          next
            case False
            with a' go nc na have "ApplyLoop n L p cv cur vid s = Some r" by auto
            from IH2[OF P this] show ?thesis .
          qed
        qed
      qed
    qed
  qed
qed

lemma ParseFormula_inv:
  assumes "\<And>L s. P s \<Longrightarrow> P (value_phase_state (ParseValue L s))"
    and "\<And>L fn r x. P (snd (snd r)) \<Longrightarrow> CloseNested L fn r = Some x \<Longrightarrow> P (sum_state x)"
    and "\<And>m v s. P s \<Longrightarrow> P (sum_state (ParseOperator m v s))"
    and "\<And>L cur cv v vid s. P s \<Longrightarrow> P (snd (ApplyOperator L cur cv v vid s))"
    and "\<And>s. P s \<Longrightarrow> P (CloseParenthesis s)"
    and "\<And>s. P s \<Longrightarrow> P (s\<lparr>ErrorCode_m := ERROR_variable_expected\<rparr>)"
    and "P s" and "ParseFormula n L p s = Some (v, op, s')"
  shows "P s'"
proof -
  from ParseFormula_invariant[of P n, OF assms(1-6)]
  have "\<forall>L p s r. P s \<longrightarrow> ParseFormula n L p s = Some r \<longrightarrow> P (snd (snd r))"
    by (rule conjunct1)
  from this[rule_format, OF assms(7) assms(8)] show ?thesis by simp
qed



lemma length_CopyUppercaseString:
  "length (CopyUppercaseString f p n) \<le> n"
  by (simp add: CopyUppercaseString_def)

lemma ParseVariable_frame:
  "Formula (value_phase_state (ParseVariable L tok s)) = Formula s"
  "FormulaString_m (value_phase_state (ParseVariable L tok s)) = FormulaString_m s"
  "ParenthesisLevel_m (value_phase_state (ParseVariable L tok s)) = ParenthesisLevel_m s"
  "ErrorCode_m (value_phase_state (ParseVariable L tok s))
     \<in> {ErrorCode_m s, ERROR_variable_full, ERROR_heap_full}"
  "Variables_m (value_phase_state (ParseVariable L tok s))
     \<in> {Variables_m s, snd (AssignVariable L (Variables_m s) tok 0)}"
  by (simp_all add: ParseVariable_def Let_def)

lemma ParseName_frame:
  "Formula (value_phase_state (ParseName L s)) = Formula s"
  "FormulaString_m s \<le> FormulaString_m (value_phase_state (ParseName L s))"
  "ParenthesisLevel_m (value_phase_state (ParseName L s))
     \<in> {ParenthesisLevel_m s, ParenthesisLevel_m s + 1}"
  "ErrorCode_m (value_phase_state (ParseName L s))
     \<in> {ErrorCode_m s, ERROR_operand, ERROR_variable_long, ERROR_variable_full,
         ERROR_heap_full}"
  "Variables_m (value_phase_state (ParseName L s)) = Variables_m s
     \<or> (\<exists>tok. length tok < MAXTOKENLENGTH
          \<and> Variables_m (value_phase_state (ParseName L s))
              = snd (AssignVariable L (Variables_m s) tok 0))"
proof -
  show "Formula (value_phase_state (ParseName L s)) = Formula s"
    by (simp add: ParseName_def Let_def ParseVariable_frame)
  show "FormulaString_m s \<le> FormulaString_m (value_phase_state (ParseName L s))"
    by (simp add: ParseName_def Let_def ParseVariable_frame SkipWhiteSpace_def)
  show "ParenthesisLevel_m (value_phase_state (ParseName L s))
     \<in> {ParenthesisLevel_m s, ParenthesisLevel_m s + 1}"
    by (simp add: ParseName_def Let_def ParseVariable_frame)
  show "ErrorCode_m (value_phase_state (ParseName L s))
     \<in> {ErrorCode_m s, ERROR_operand, ERROR_variable_long, ERROR_variable_full,
         ERROR_heap_full}"
    using ParseVariable_frame(4)[where L=L and tok="CopyUppercaseString (Formula s) (FormulaString_m s)
        (GetNextTokenLength (Formula s) (FormulaString_m s))"
       and s="s\<lparr>FormulaString_m := FormulaString_m s
       + GetNextTokenLength (Formula s) (FormulaString_m s)\<rparr>"]
    by (auto simp add: ParseName_def Let_def)
  show "Variables_m (value_phase_state (ParseName L s)) = Variables_m s
     \<or> (\<exists>tok. length tok < MAXTOKENLENGTH
          \<and> Variables_m (value_phase_state (ParseName L s))
              = snd (AssignVariable L (Variables_m s) tok 0))"
    using ParseVariable_frame(5)[where L=L and tok="CopyUppercaseString (Formula s) (FormulaString_m s)
        (GetNextTokenLength (Formula s) (FormulaString_m s))"
       and s="s\<lparr>FormulaString_m := FormulaString_m s
       + GetNextTokenLength (Formula s) (FormulaString_m s)\<rparr>"]
      length_CopyUppercaseString[of "Formula s" "FormulaString_m s"
        "GetNextTokenLength (Formula s) (FormulaString_m s)"]
    by (auto simp add: ParseName_def Let_def
        intro!: exI[of _ "CopyUppercaseString (Formula s) (FormulaString_m s)
        (GetNextTokenLength (Formula s) (FormulaString_m s))"])
qed

lemma SkipSign_ge: "p \<le> SkipSign f p"
  by (simp add: SkipSign_def SkipWhiteSpace_def Let_def)

lemma ParseValue_frame:
  "Formula (value_phase_state (ParseValue L s)) = Formula s"
  "FormulaString_m s \<le> FormulaString_m (value_phase_state (ParseValue L s))"
  "ParenthesisLevel_m (value_phase_state (ParseValue L s))
     \<in> {ParenthesisLevel_m s, ParenthesisLevel_m s + 1}"
  "ErrorCode_m (value_phase_state (ParseValue L s))
     \<in> {ErrorCode_m s, ERROR_operand, ERROR_variable_long, ERROR_variable_full,
         ERROR_heap_full}"
  "Variables_m (value_phase_state (ParseValue L s)) = Variables_m s
     \<or> (\<exists>tok. length tok < MAXTOKENLENGTH
          \<and> Variables_m (value_phase_state (ParseValue L s))
              = snd (AssignVariable L (Variables_m s) tok 0))"
proof -
  let ?s2 = "s\<lparr>FormulaString_m := SkipSign (Formula s) (FormulaString_m s)\<rparr>"
  note n = ParseName_frame[where L=L and s="?s2"]
  show "Formula (value_phase_state (ParseValue L s)) = Formula s"
    using n(1) by (simp add: ParseValue_def Let_def)
  show "FormulaString_m s \<le> FormulaString_m (value_phase_state (ParseValue L s))"
    using n(2) SkipSign_ge[where p="FormulaString_m s" and f="Formula s"]
    by (simp add: ParseValue_def Let_def)
  show "ParenthesisLevel_m (value_phase_state (ParseValue L s))
     \<in> {ParenthesisLevel_m s, ParenthesisLevel_m s + 1}"
    using n(3) by (simp add: ParseValue_def Let_def)
  show "ErrorCode_m (value_phase_state (ParseValue L s))
     \<in> {ErrorCode_m s, ERROR_operand, ERROR_variable_long, ERROR_variable_full,
         ERROR_heap_full}"
    using n(4) by (simp add: ParseValue_def Let_def)
  show "Variables_m (value_phase_state (ParseValue L s)) = Variables_m s
     \<or> (\<exists>tok. length tok < MAXTOKENLENGTH
          \<and> Variables_m (value_phase_state (ParseValue L s))
              = snd (AssignVariable L (Variables_m s) tok 0))"
    using n(5) by (simp add: ParseValue_def Let_def)
qed

lemma CloseNested_frame:
  assumes "CloseNested L fn r = Some x"
  shows "Formula (sum_state x) = Formula (snd (snd r))"
    "FormulaString_m (sum_state x) = FormulaString_m (snd (snd r))"
    "ParenthesisLevel_m (sum_state x) = ParenthesisLevel_m (snd (snd r))"
    "ErrorCode_m (sum_state x) \<in> {ErrorCode_m (snd (snd r)), ERROR_openparen, ERROR_parameter}"
    "Variables_m (sum_state x) = Variables_m (snd (snd r))"
  using assms
  by (auto simp: CloseNested_def Let_def sum_state_def EvaluateFunction_def
      split: if_splits option.splits function_t.splits)

lemma ParseOperator_frame:
  "Formula (sum_state (ParseOperator m v s)) = Formula s"
  "FormulaString_m s \<le> FormulaString_m (sum_state (ParseOperator m v s))"
  "ParenthesisLevel_m (sum_state (ParseOperator m v s)) = ParenthesisLevel_m s"
  "ErrorCode_m (sum_state (ParseOperator m v s)) \<in> {ErrorCode_m s, ERROR_operator}"
  "Variables_m (sum_state (ParseOperator m v s)) = Variables_m s"
  by (simp_all add: ParseOperator_def Let_def sum_state_def SkipWhiteSpace_def
      split: option.splits)

lemma ApplyOperator_frame:
  "Formula (snd (ApplyOperator L cur cv v vid s)) = Formula s"
  "FormulaString_m (snd (ApplyOperator L cur cv v vid s)) = FormulaString_m s"
  "ParenthesisLevel_m (snd (ApplyOperator L cur cv v vid s)) = ParenthesisLevel_m s"
  "ErrorCode_m (snd (ApplyOperator L cur cv v vid s)) \<in> {ErrorCode_m s, ERROR_division}"
  "Variables_m (snd (ApplyOperator L cur cv v vid s))
     \<in> {Variables_m s, (Variables_m s)[nat vid := (fst (Variables_m s ! nat vid), v)]}"
  by (simp_all add: ApplyOperator_def split: operator_t.splits)

lemma CloseParenthesis_frame:
  "Formula (CloseParenthesis s) = Formula s"
  "FormulaString_m (CloseParenthesis s) = FormulaString_m s"
  "ErrorCode_m (CloseParenthesis s) \<in> {ErrorCode_m s, ERROR_closeparen}"
  "Variables_m (CloseParenthesis s) = Variables_m s"
  by (simp_all add: CloseParenthesis_def)

section \<open>Formulas given by their parts\<close>

lemma peek_append_length [simp]: "peek (xs @ c # ys) (length xs) = c"
  by (simp add: peek_def)

lemma peek_append_length2 [simp]: "peek (pre @ xs @ c # ys) (length pre + length xs) = c"
  using peek_append_length[of "pre @ xs" c ys] by simp

lemma SkipWhiteSpace_append:
  "list_all is_white ws \<Longrightarrow> \<not> is_white c
     \<Longrightarrow> SkipWhiteSpace (pre @ ws @ c # rest) (length pre) = length pre + length ws"
  by (simp add: SkipWhiteSpace_def takeWhile_append2 list_all_iff takeWhile_tail)

lemma name_start_not:
  assumes "isupper c \<or> islower c \<or> c = CHR ''%''"
  shows "\<not> is_white c" "c \<noteq> CHR ''-''" "c \<noteq> CHR ''+''" "c \<noteq> CHR ''(''"
    "\<not> isdigit c" "c \<noteq> CHR ''.''"
  using assms by (auto simp: is_white_def isupper_def islower_def isdigit_def)

lemma SkipSign_append:
  assumes "list_all is_white ws" and "sg \<in> {[], ''-'', ''+''}"
    and "isupper c \<or> islower c \<or> c = CHR ''%''"
  shows "SkipSign (pre @ ws @ sg @ c # rest) (length pre) = length pre + length ws + length sg"
proof -
  have nw: "\<not> is_white CHR ''-''" "\<not> is_white CHR ''+''"
    by (simp_all add: is_white_def)
  note c = name_start_not[OF assms(3)]
  from assms(2) consider "sg = []" | "sg = ''-''" | "sg = ''+''" by auto
  then show ?thesis
  proof cases
    case 1
    with SkipWhiteSpace_append[OF assms(1) c(1), of pre rest] c show ?thesis
      by (simp add: SkipSign_def)
  next
    case 2
    with SkipWhiteSpace_append[OF assms(1) nw(1), of pre "c # rest"] show ?thesis
      by (simp add: SkipSign_def)
  next
    case 3
    with SkipWhiteSpace_append[OF assms(1) nw(2), of pre "c # rest"] show ?thesis
      by (simp add: SkipSign_def)
  qed
qed

lemma GetNextTokenLength_append:
  assumes "isupper c \<or> islower c \<or> c = CHR ''%''"
    and "list_all (\<lambda>c. isalnum c \<or> c = CHR ''_'') cs"
  shows "GetNextTokenLength (pre @ c # cs @ rest) (length pre)
     = 1 + length cs + length (takeWhile (\<lambda>c. isalnum c \<or> c = CHR ''_'') rest)"
  using assms by (simp add: GetNextTokenLength_def takeWhile_append2 list_all_iff)

section \<open>The length of variable names\<close>

lemma list_all_update_value:
  assumes "list_all (\<lambda>nv. Q (fst nv)) vars"
  shows "list_all (\<lambda>nv. Q (fst nv)) (vars[k := (fst (vars ! k), v)])"
proof (cases "k < length vars")
  case True
  with assms show ?thesis by (auto simp: list_all_length nth_list_update)
next
  case False
  with assms show ?thesis by (simp add: list_update_beyond)
qed

lemma AssignVariable_names:
  assumes "list_all (\<lambda>nv. Q (fst nv)) vars" and "Q tok"
  shows "list_all (\<lambda>nv. Q (fst nv)) (snd (AssignVariable L vars tok v))"
  using assms list_all_update_value[OF assms(1), of "nat (GetVariableID vars tok)" v]
  by (simp add: AssignVariable_def Let_def)

lemma AssignVariable_length:
  "length vars \<le> MAXNUMBERVAR \<Longrightarrow> length (snd (AssignVariable L vars tok v)) \<le> MAXNUMBERVAR"
  by (simp add: AssignVariable_def Let_def)

text \<open>Every name that the parser stores is shorter than \<open>MAXTOKENLENGTH\<close>.\<close>

lemma names_bounded:
  assumes "list_all (\<lambda>nv. length (fst nv) < MAXTOKENLENGTH) (Variables_m s)"
    and "ParseFormula n L p s = Some (v, op, s')"
  shows "list_all (\<lambda>nv. length (fst nv) < MAXTOKENLENGTH) (Variables_m s')"
proof (rule ParseFormula_inv[where
      P = "\<lambda>s::parse_state. list_all (\<lambda>nv. length (fst nv) < MAXTOKENLENGTH) (Variables_m s)",
      OF _ _ _ _ _ _ assms])
  fix L and s :: parse_state
  assume a: "list_all (\<lambda>nv. length (fst nv) < MAXTOKENLENGTH) (Variables_m s)"
  from ParseValue_frame(5)[of L s] a
  show "list_all (\<lambda>nv. length (fst nv) < MAXTOKENLENGTH)
          (Variables_m (value_phase_state (ParseValue L s)))"
    by (auto intro: AssignVariable_names)
next
  fix L fn and r :: "real \<times> operator_t \<times> parse_state" and x
  assume "list_all (\<lambda>nv. length (fst nv) < MAXTOKENLENGTH) (Variables_m (snd (snd r)))"
    and "CloseNested L fn r = Some x"
  then show "list_all (\<lambda>nv. length (fst nv) < MAXTOKENLENGTH) (Variables_m (sum_state x))"
    by (simp add: CloseNested_frame(5))
next
  fix m v and s :: parse_state
  assume "list_all (\<lambda>nv. length (fst nv) < MAXTOKENLENGTH) (Variables_m s)"
  then show "list_all (\<lambda>nv. length (fst nv) < MAXTOKENLENGTH)
      (Variables_m (sum_state (ParseOperator m v s)))"
    by (simp add: ParseOperator_frame(5))
next
  fix L cur cv v vid and s :: parse_state
  assume a: "list_all (\<lambda>nv. length (fst nv) < MAXTOKENLENGTH) (Variables_m s)"
  from ApplyOperator_frame(5)[of L cur cv v vid s] a
    list_all_update_value[of "\<lambda>n. length n < MAXTOKENLENGTH" "Variables_m s" "nat vid" v]
  show "list_all (\<lambda>nv. length (fst nv) < MAXTOKENLENGTH)
      (Variables_m (snd (ApplyOperator L cur cv v vid s)))"
    by auto
next
  fix s :: parse_state
  assume "list_all (\<lambda>nv. length (fst nv) < MAXTOKENLENGTH) (Variables_m s)"
  then show "list_all (\<lambda>nv. length (fst nv) < MAXTOKENLENGTH) (Variables_m (CloseParenthesis s))"
    by (simp add: CloseParenthesis_frame(4))
qed simp

lemma ParseFormula_name_too_long:
  assumes f: "Formula s = pre @ ws @ sg @ c # cs @ rest"
    and p: "FormulaString_m s = length pre"
    and ws: "list_all is_white ws"
    and sg: "sg \<in> {[], ''-'', ''+''}"
    and c: "isupper c \<or> islower c \<or> c = CHR ''%''"
    and cs: "list_all (\<lambda>c. isalnum c \<or> c = CHR ''_'') cs"
    and len: "MAXTOKENLENGTH \<le> length (c # cs)"
  shows "ParseFormula (Suc n) L PendingOperator s =
     Some (DEFAULT_RETURN, PendingOperator,
           s\<lparr>FormulaString_m := length pre + length ws + length sg,
             ErrorCode_m := ERROR_variable_long\<rparr>)"
proof -
  let ?p2 = "length pre + length ws + length sg"
  have p2: "SkipSign (Formula s) (FormulaString_m s) = ?p2"
    using SkipSign_append[OF ws sg c, of pre "cs @ rest"] by (simp add: f p)
  have pk: "peek (Formula s) ?p2 = c"
    using peek_append_length[of "pre @ ws @ sg" c "cs @ rest"] by (simp add: f add.assoc)
  have tl: "MAXTOKENLENGTH \<le> GetNextTokenLength (Formula s) ?p2"
    using GetNextTokenLength_append[OF c cs, of "pre @ ws @ sg" rest] len
    by (simp add: f add.assoc)
  then have tl0: "GetNextTokenLength (Formula s) ?p2 \<noteq> 0"
    by (simp add: MAXTOKENLENGTH_def)
  have pn: "ParseName L (s\<lparr>FormulaString_m := ?p2\<rparr>)
      = Return (s\<lparr>FormulaString_m := ?p2, ErrorCode_m := ERROR_variable_long\<rparr>)"
    using tl tl0 by (simp add: ParseName_def Let_def)
  have pv: "ParseValue L s
      = Return (s\<lparr>FormulaString_m := ?p2, ErrorCode_m := ERROR_variable_long\<rparr>)"
    using name_start_not[OF c] by (simp add: ParseValue_def Let_def p2 pk pn)
  show ?thesis
    by (simp add: ParseFormula.simps(2) pv)
qed

section \<open>The symbol table\<close>

lemma GetVariableID_from_found:
  "0 \<le> k \<Longrightarrow> GetVariableID_from vars t k \<noteq> NOTFOUND
     \<Longrightarrow> k \<le> GetVariableID_from vars t k
       \<and> GetVariableID_from vars t k < k + int (length vars)
       \<and> fst (vars ! nat (GetVariableID_from vars t k - k)) = t"
proof (induction vars arbitrary: k)
  case Nil
  then show ?case by simp
next
  case (Cons nv vs)
  show ?case
  proof (cases "fst nv = t")
    case True
    then show ?thesis by simp
  next
    case False
    with Cons.prems have nf: "GetVariableID_from vs t (k + 1) \<noteq> NOTFOUND" by simp
    from Cons.IH[OF _ nf] Cons.prems(1)
    have ih: "k + 1 \<le> GetVariableID_from vs t (k + 1)"
      "GetVariableID_from vs t (k + 1) < k + 1 + int (length vs)"
      "fst (vs ! nat (GetVariableID_from vs t (k + 1) - (k + 1))) = t"
      by auto
    have "nat (GetVariableID_from vs t (k + 1) - k)
        = Suc (nat (GetVariableID_from vs t (k + 1) - (k + 1)))"
      using ih(1) by simp
    with ih False show ?thesis by simp
  qed
qed

lemma GetVariableID_from_NOTFOUND:
  "0 \<le> k \<Longrightarrow> (GetVariableID_from vars t k = NOTFOUND) = (t \<notin> fst ` set vars)"
proof (induction vars arbitrary: k)
  case Nil
  then show ?case by simp
next
  case (Cons nv vs)
  from Cons.IH[of "k + 1"] Cons.prems show ?case
    by (auto simp: NOTFOUND_def)
qed

lemma GetVariableID_found:
  assumes "t \<in> fst ` set vars"
  shows "0 \<le> GetVariableID vars t" "nat (GetVariableID vars t) < length vars"
    "fst (vars ! nat (GetVariableID vars t)) = t" "GetVariableID vars t \<noteq> NOTFOUND"
proof -
  from assms show nf: "GetVariableID vars t \<noteq> NOTFOUND"
    using GetVariableID_from_NOTFOUND[of 0 vars t] by (simp add: GetVariableID_def)
  from GetVariableID_from_found[of 0 vars t] nf
  show "0 \<le> GetVariableID vars t" "nat (GetVariableID vars t) < length vars"
    "fst (vars ! nat (GetVariableID vars t)) = t"
    by (auto simp: GetVariableID_def)
qed

lemma GetVariableID_NOTFOUND:
  "(GetVariableID vars t = NOTFOUND) = (t \<notin> fst ` set vars)"
  using GetVariableID_from_NOTFOUND[of 0 vars t] by (simp add: GetVariableID_def)

lemma AssignVariable_existing:
  assumes "t \<in> fst ` set vars"
  shows "AssignVariable L vars t v
     = (GetVariableID vars t, vars[nat (GetVariableID vars t) := (t, v)])"
  using GetVariableID_found[OF assms] by (simp add: AssignVariable_def Let_def)

lemma AssignVariable_full:
  assumes "t \<notin> fst ` set vars" and "MAXNUMBERVAR \<le> length vars"
  shows "AssignVariable L vars t v = (NOROOM, vars)"
  using assms by (simp add: AssignVariable_def Let_def GetVariableID_NOTFOUND)

lemma AssignVariable_new:
  assumes "t \<notin> fst ` set vars" and "length vars < MAXNUMBERVAR"
    and "c_calloc_ok L (length t + 1)"
  shows "AssignVariable L vars t v = (int (length vars), vars @ [(t, v)])"
  using assms by (simp add: AssignVariable_def Let_def GetVariableID_NOTFOUND)

lemma ParseVariable_existing:
  assumes "t \<in> fst ` set (Variables_m s)"
  shows "ParseVariable L t s
     = Value (snd (Variables_m s ! nat (GetVariableID (Variables_m s) t)))
         (GetVariableID (Variables_m s) t) s"
  using GetVariableID_found[OF assms] by (simp add: ParseVariable_def Let_def)

lemma ParseVariable_full:
  assumes "t \<notin> fst ` set (Variables_m s)" and "MAXNUMBERVAR \<le> length (Variables_m s)"
  shows "ParseVariable L t s = Return (s\<lparr>ErrorCode_m := ERROR_variable_full\<rparr>)"
  using AssignVariable_full[OF assms, of L 0] assms
  by (simp add: ParseVariable_def Let_def GetVariableID_NOTFOUND)

text \<open>The table never holds more than \<open>MAXNUMBERVAR\<close> variables.\<close>

lemma table_bounded:
  assumes "length (Variables_m s) \<le> MAXNUMBERVAR"
    and "ParseFormula n L p s = Some (v, op, s')"
  shows "length (Variables_m s') \<le> MAXNUMBERVAR"
proof (rule ParseFormula_inv[where
      P = "\<lambda>s::parse_state. length (Variables_m s) \<le> MAXNUMBERVAR", OF _ _ _ _ _ _ assms])
  fix L and s :: parse_state
  assume a: "length (Variables_m s) \<le> MAXNUMBERVAR"
  from ParseValue_frame(5)[of L s] a
  show "length (Variables_m (value_phase_state (ParseValue L s))) \<le> MAXNUMBERVAR"
    by (auto intro: AssignVariable_length)
next
  fix L fn and r :: "real \<times> operator_t \<times> parse_state" and x
  assume "length (Variables_m (snd (snd r))) \<le> MAXNUMBERVAR"
    and "CloseNested L fn r = Some x"
  then show "length (Variables_m (sum_state x)) \<le> MAXNUMBERVAR"
    by (simp add: CloseNested_frame(5))
next
  fix m v and s :: parse_state
  assume "length (Variables_m s) \<le> MAXNUMBERVAR"
  then show "length (Variables_m (sum_state (ParseOperator m v s))) \<le> MAXNUMBERVAR"
    by (simp add: ParseOperator_frame(5))
next
  fix L cur cv v vid and s :: parse_state
  assume a: "length (Variables_m s) \<le> MAXNUMBERVAR"
  from ApplyOperator_frame(5)[of L cur cv v vid s] a
  show "length (Variables_m (snd (ApplyOperator L cur cv v vid s))) \<le> MAXNUMBERVAR"
    by auto
next
  fix s :: parse_state
  assume "length (Variables_m s) \<le> MAXNUMBERVAR"
  then show "length (Variables_m (CloseParenthesis s)) \<le> MAXNUMBERVAR"
    by (simp add: CloseParenthesis_frame(4))
qed simp

text \<open>No step sets the error unknown-function.\<close>

lemma no_ERROR_function:
  assumes "ErrorCode_m s \<noteq> ERROR_function" and "ParseFormula n L p s = Some (v, op, s')"
  shows "ErrorCode_m s' \<noteq> ERROR_function"
proof (rule ParseFormula_inv[where
      P = "\<lambda>s::parse_state. ErrorCode_m s \<noteq> ERROR_function", OF _ _ _ _ _ _ assms])
  fix L and s :: parse_state
  assume "ErrorCode_m s \<noteq> ERROR_function"
  with ParseValue_frame(4)[of L s]
  show "ErrorCode_m (value_phase_state (ParseValue L s)) \<noteq> ERROR_function"
    by auto
next
  fix L fn and r :: "real \<times> operator_t \<times> parse_state" and x
  assume "ErrorCode_m (snd (snd r)) \<noteq> ERROR_function" and "CloseNested L fn r = Some x"
  with CloseNested_frame(4)[of L fn r x]
  show "ErrorCode_m (sum_state x) \<noteq> ERROR_function"
    by auto
next
  fix m v and s :: parse_state
  assume "ErrorCode_m s \<noteq> ERROR_function"
  with ParseOperator_frame(4)[of m v s]
  show "ErrorCode_m (sum_state (ParseOperator m v s)) \<noteq> ERROR_function"
    by auto
next
  fix L cur cv v vid and s :: parse_state
  assume "ErrorCode_m s \<noteq> ERROR_function"
  with ApplyOperator_frame(4)[of L cur cv v vid s]
  show "ErrorCode_m (snd (ApplyOperator L cur cv v vid s)) \<noteq> ERROR_function"
    by auto
next
  fix s :: parse_state
  assume "ErrorCode_m s \<noteq> ERROR_function"
  with CloseParenthesis_frame(3)[of s]
  show "ErrorCode_m (CloseParenthesis s) \<noteq> ERROR_function"
    by auto
qed simp

section \<open>Termination\<close>

lemma ParseFormula_fuel_le:
  "ParseFormula n L p s = Some r \<Longrightarrow> n \<le> m \<Longrightarrow> ParseFormula m L p s = Some r"
  using ParseFormula_fuel[of n L p s r "m - n"] by simp

lemma ApplyLoop_fuel_le:
  "ApplyLoop n L p cv cur vid s = Some r \<Longrightarrow> n \<le> m
     \<Longrightarrow> ApplyLoop m L p cv cur vid s = Some r"
  using ApplyLoop_fuel[of n L p cv cur vid s r "m - n"] by simp

subsection \<open>One round of each function\<close>

lemma ParseFormula_Return:
  "ParseValue L s = Return s1 \<Longrightarrow> ParseFormula (Suc n) L p s = Some (DEFAULT_RETURN, p, s1)"
  by (simp add: ParseFormula.simps(2))

lemma ParseFormula_operator:
  "ParseOperator (MinusSignPresent s) v s1 = Inl s2 \<Longrightarrow>
     (case ParseOperator (MinusSignPresent s) v s1 of
        Inl s' \<Rightarrow> Some (DEFAULT_RETURN, p, s')
      | Inr (cv, cur, s') \<Rightarrow> ApplyLoop n L p cv cur vid s') = Some (DEFAULT_RETURN, p, s2)"
  "ParseOperator (MinusSignPresent s) v s1 = Inr (cv, cur, s2) \<Longrightarrow>
     (case ParseOperator (MinusSignPresent s) v s1 of
        Inl s' \<Rightarrow> Some (DEFAULT_RETURN, p, s')
      | Inr (cv, cur, s') \<Rightarrow> ApplyLoop n L p cv cur vid s') = ApplyLoop n L p cv cur vid s2"
  by simp_all

lemma ParseFormula_Value:
  "ParseValue L s = Value v vid s1 \<Longrightarrow>
   ParseFormula (Suc n) L p s =
     (case ParseOperator (MinusSignPresent s) v s1 of
        Inl s' \<Rightarrow> Some (DEFAULT_RETURN, p, s')
      | Inr (cv, cur, s') \<Rightarrow> ApplyLoop n L p cv cur vid s')"
  by (simp add: ParseFormula.simps(2))

lemma ParseFormula_Nested_Inl:
  "ParseValue L s = Nested fn s1 \<Longrightarrow> ParseFormula n L OP_OpenParenthesis s1 = Some r1
   \<Longrightarrow> CloseNested L fn r1 = Some (Inl s2)
   \<Longrightarrow> ParseFormula (Suc n) L p s = Some (DEFAULT_RETURN, p, s2)"
  by (simp add: ParseFormula.simps(2))

lemma ParseFormula_Nested_Inr:
  "ParseValue L s = Nested fn s1 \<Longrightarrow> ParseFormula n L OP_OpenParenthesis s1 = Some r1
   \<Longrightarrow> CloseNested L fn r1 = Some (Inr (v, vid, s2))
   \<Longrightarrow> ParseFormula (Suc n) L p s =
     (case ParseOperator (MinusSignPresent s) v s2 of
        Inl s' \<Rightarrow> Some (DEFAULT_RETURN, p, s')
      | Inr (cv, cur, s') \<Rightarrow> ApplyLoop n L p cv cur vid s')"
  by (simp add: ParseFormula.simps(2))

lemma ApplyLoop_stop:
  "\<not> (ErrorCode_m s = ERROR_none \<and> ApplyCriteria cur p)
   \<Longrightarrow> ApplyLoop (Suc n) L p cv cur vid s = Some (cv, cur, s)"
  by (simp add: ApplyLoop.simps(2))

lemma ApplyLoop_close:
  "ErrorCode_m s = ERROR_none \<Longrightarrow> ApplyCriteria OP_CloseParenthesis p
   \<Longrightarrow> ApplyLoop (Suc n) L p cv OP_CloseParenthesis vid s
       = ApplyLoop n L p cv OP_CloseParenthesis vid (CloseParenthesis s)"
  by (simp add: ApplyLoop.simps(2))

lemma ApplyLoop_variable_expected:
  "ErrorCode_m s = ERROR_none \<Longrightarrow> ApplyCriteria OP_Assignment p \<Longrightarrow> vid = NOTFOUND
   \<Longrightarrow> ApplyLoop (Suc n) L p cv OP_Assignment vid s
       = Some (DEFAULT_RETURN, p, s\<lparr>ErrorCode_m := ERROR_variable_expected\<rparr>)"
  by (simp add: ApplyLoop.simps(2))

lemma ApplyLoop_operand:
  "ErrorCode_m s = ERROR_none \<Longrightarrow> ApplyCriteria cur p \<Longrightarrow> cur \<noteq> OP_CloseParenthesis
   \<Longrightarrow> \<not> (cur = OP_Assignment \<and> vid = NOTFOUND) \<Longrightarrow> HasRightOperand cur
   \<Longrightarrow> ParseFormula n L cur s = Some (v, op, s')
   \<Longrightarrow> ApplyLoop (Suc n) L p cv cur vid s
       = ApplyLoop n L p (fst (ApplyOperator L cur cv v vid s')) op vid
           (snd (ApplyOperator L cur cv v vid s'))"
  by (auto simp add: ApplyLoop.simps(2))

subsection \<open>Where the steps leave the pointer\<close>

lemma peek_not_null: "peek f p \<noteq> CHR 0x00 \<Longrightarrow> p < length f"
  by (simp add: peek_def split: if_splits)

lemma ParseName_Nested:
  assumes "ParseName L s = Nested fn s1"
  shows "Formula s1 = Formula s" "FormulaString_m s < FormulaString_m s1"
    "FormulaString_m s1 \<le> length (Formula s)" "fn \<noteq> Some FUNC_err" "fn \<noteq> None"
    "ErrorCode_m s1 = ErrorCode_m s"
proof -
  let ?f = "Formula s" and ?p2 = "FormulaString_m s"
  let ?n = "GetNextTokenLength ?f ?p2"
  let ?tok = "CopyUppercaseString ?f ?p2 ?n"
  let ?p4 = "SkipWhiteSpace ?f (?p2 + ?n)"
  have nv: "\<And>t s'. ParseVariable L t s' \<noteq> Nested fn s1"
    by (simp add: ParseVariable_def Let_def)
  from assms nv have a: "peek ?f ?p4 = CHR ''(''"
    "fn = Some (LookupFunction ?tok)" "LookupFunction ?tok \<noteq> FUNC_err"
    "s1 = s\<lparr>FormulaString_m := ?p4 + 1, ParenthesisLevel_m := ParenthesisLevel_m s + 1\<rparr>"
    by (auto simp: ParseName_def Let_def split: if_splits)
  from a(1) have "?p4 < length ?f" by (intro peek_not_null) simp
  moreover have "?p2 \<le> ?p4" by (simp add: SkipWhiteSpace_def)
  ultimately show "Formula s1 = Formula s" "FormulaString_m s < FormulaString_m s1"
    "FormulaString_m s1 \<le> length (Formula s)" "fn \<noteq> Some FUNC_err" "fn \<noteq> None"
    "ErrorCode_m s1 = ErrorCode_m s"
    using a by simp_all
qed

lemma ParseValue_Nested:
  assumes "ParseValue L s = Nested fn s1"
  shows "Formula s1 = Formula s" "FormulaString_m s < FormulaString_m s1"
    "FormulaString_m s1 \<le> length (Formula s)" "fn \<noteq> Some FUNC_err"
    "ErrorCode_m s1 = ErrorCode_m s"
proof -
  let ?f = "Formula s"
  let ?p2 = "SkipSign ?f (FormulaString_m s)"
  let ?s2 = "s\<lparr>FormulaString_m := ?p2\<rparr>"
  have ge: "FormulaString_m s \<le> ?p2" by (rule SkipSign_ge)
  have c: "Formula s1 = Formula s \<and> FormulaString_m s < FormulaString_m s1
      \<and> FormulaString_m s1 \<le> length (Formula s) \<and> fn \<noteq> Some FUNC_err
      \<and> ErrorCode_m s1 = ErrorCode_m s"
  proof (cases "peek ?f ?p2 = CHR ''(''")
    case True
    then have "?p2 < length ?f" by (intro peek_not_null) simp
    with assms True ge show ?thesis
      by (auto simp: ParseValue_def Let_def)
  next
    case False
    with assms have "ParseName L ?s2 = Nested fn s1"
      by (auto simp: ParseValue_def Let_def split: if_splits)
    from ParseName_Nested[OF this] ge show ?thesis
      by simp
  qed
  from c show "Formula s1 = Formula s" "FormulaString_m s < FormulaString_m s1"
    "FormulaString_m s1 \<le> length (Formula s)" "fn \<noteq> Some FUNC_err"
    "ErrorCode_m s1 = ErrorCode_m s"
    by simp_all
qed

lemma GetOperator_cases:
  assumes "GetOperator c = Some cur"
  shows "cur \<noteq> OP_BeginLine" "cur \<noteq> OP_OpenParenthesis" "cur \<noteq> OP_EndLine \<Longrightarrow> c \<noteq> CHR 0x00"
  using assms by (auto simp: GetOperator_def split: if_splits)

lemma ParseOperator_Inr:
  assumes "ParseOperator m v s = Inr (cv, cur, s')"
  shows "Formula s' = Formula s" "FormulaString_m s < FormulaString_m s'"
    "cur \<noteq> OP_EndLine \<Longrightarrow> FormulaString_m s' \<le> length (Formula s)"
    "cur \<noteq> OP_BeginLine" "cur \<noteq> OP_OpenParenthesis" "ErrorCode_m s' = ErrorCode_m s"
proof -
  let ?p = "SkipWhiteSpace (Formula s) (FormulaString_m s)"
  from assms have g: "GetOperator (peek (Formula s) ?p) = Some cur"
    and s': "s' = s\<lparr>FormulaString_m := ?p + 1\<rparr>"
    by (auto simp: ParseOperator_def Let_def split: option.splits)
  have ge: "FormulaString_m s \<le> ?p" by (simp add: SkipWhiteSpace_def)
  from s' ge show "Formula s' = Formula s" "FormulaString_m s < FormulaString_m s'"
    "ErrorCode_m s' = ErrorCode_m s" by simp_all
  from GetOperator_cases[OF g] show "cur \<noteq> OP_BeginLine" "cur \<noteq> OP_OpenParenthesis"
    by simp_all
  show "FormulaString_m s' \<le> length (Formula s)" if "cur \<noteq> OP_EndLine"
  proof -
    from GetOperator_cases(3)[OF g that] have "?p < length (Formula s)"
      by (rule peek_not_null)
    with s' show ?thesis by simp
  qed
qed

lemma CloseNested_total:
  "fn \<noteq> Some FUNC_err \<Longrightarrow> \<exists>x. CloseNested L fn r = Some x"
  by (cases fn; cases "the fn")
    (auto simp: CloseNested_def Let_def EvaluateFunction_def split: option.splits)

lemma CloseNested_Inr:
  assumes "CloseNested L fn r = Some (Inr (v, vid, s'))"
  shows "ErrorCode_m (snd (snd r)) = ERROR_none" "fst (snd r) = OP_CloseParenthesis"
    "Formula s' = Formula (snd (snd r))" "FormulaString_m s' = FormulaString_m (snd (snd r))"
    "ErrorCode_m s' = ERROR_none"
  using assms
  by (auto simp: CloseNested_def Let_def EvaluateFunction_def
      split: if_splits option.splits function_t.splits)

lemma ParseVariable_Return_error:
  "ParseVariable L t s = Return s1 \<Longrightarrow> ErrorCode_m s1 \<noteq> ERROR_none"
  by (auto simp: ParseVariable_def Let_def split: if_splits)

lemma ParseName_Return_error:
  "ParseName L s = Return s1 \<Longrightarrow> ErrorCode_m s1 \<noteq> ERROR_none"
  by (auto simp: ParseName_def Let_def split: if_splits dest: ParseVariable_Return_error)

lemma ParseValue_Return_error:
  "ParseValue L s = Return s1 \<Longrightarrow> ErrorCode_m s1 \<noteq> ERROR_none"
  by (auto simp: ParseValue_def Let_def split: if_splits dest: ParseName_Return_error)

lemma ParseOperator_Inl_error:
  "ParseOperator m v s = Inl s1 \<Longrightarrow> ErrorCode_m s1 \<noteq> ERROR_none"
  by (auto simp: ParseOperator_def Let_def split: option.splits)

lemma CloseNested_Inl_error:
  "CloseNested L fn r = Some (Inl s1) \<Longrightarrow> ErrorCode_m s1 \<noteq> ERROR_none"
  by (auto simp: CloseNested_def Let_def split: if_splits option.splits)

lemma ApplyCriteria_EndLine [simp]: "\<not> ApplyCriteria OP_EndLine p"
  by (simp add: ApplyCriteria_def)

lemma ApplyLoop_close_terminates:
  "\<exists>n s'. ApplyLoop n L p cv OP_CloseParenthesis vid s = Some (cv, OP_CloseParenthesis, s')
      \<and> Formula s' = Formula s \<and> FormulaString_m s' = FormulaString_m s"
proof (induction "nat (ParenthesisLevel_m s)" arbitrary: s)
  case 0
  show ?case
  proof (cases "ErrorCode_m s = ERROR_none \<and> ApplyCriteria OP_CloseParenthesis p")
    case False
    then have "ApplyLoop (Suc 0) L p cv OP_CloseParenthesis vid s
        = Some (cv, OP_CloseParenthesis, s)"
      by (rule ApplyLoop_stop)
    then show ?thesis by blast
  next
    case True
    from 0 have e: "ErrorCode_m (CloseParenthesis s) \<noteq> ERROR_none"
      by (simp add: CloseParenthesis_def)
    have "ApplyLoop (Suc (Suc 0)) L p cv OP_CloseParenthesis vid s
        = ApplyLoop (Suc 0) L p cv OP_CloseParenthesis vid (CloseParenthesis s)"
      using True by (intro ApplyLoop_close) simp_all
    also have "\<dots> = Some (cv, OP_CloseParenthesis, CloseParenthesis s)"
      using e by (intro ApplyLoop_stop) simp
    finally show ?thesis
      using CloseParenthesis_frame(1,2)[of s] by blast
  qed
next
  case (Suc k)
  show ?case
  proof (cases "ErrorCode_m s = ERROR_none \<and> ApplyCriteria OP_CloseParenthesis p")
    case False
    then have "ApplyLoop (Suc 0) L p cv OP_CloseParenthesis vid s
        = Some (cv, OP_CloseParenthesis, s)"
      by (rule ApplyLoop_stop)
    then show ?thesis by blast
  next
    case True
    from Suc(2) have "k = nat (ParenthesisLevel_m (CloseParenthesis s))"
      by (auto simp: CloseParenthesis_def)
    from Suc(1)[OF this] obtain n s' where
      n: "ApplyLoop n L p cv OP_CloseParenthesis vid (CloseParenthesis s)
          = Some (cv, OP_CloseParenthesis, s')"
      and s': "Formula s' = Formula (CloseParenthesis s)"
        "FormulaString_m s' = FormulaString_m (CloseParenthesis s)"
      by blast
    have "ApplyLoop (Suc n) L p cv OP_CloseParenthesis vid s
        = ApplyLoop n L p cv OP_CloseParenthesis vid (CloseParenthesis s)"
      using True by (intro ApplyLoop_close) simp_all
    with n s' CloseParenthesis_frame(1,2)[of s] show ?thesis
      by (intro exI[of _ "Suc n"] exI[of _ s']) simp
  qed
qed

lemma operator_phase_returns:
  assumes fs: "Formula sa = Formula s" and le: "FormulaString_m s \<le> FormulaString_m sa"
    and IH: "\<And>s' p cv cur vid.
       length (Formula s') - FormulaString_m s' < length (Formula s) - FormulaString_m s
       \<Longrightarrow> cur \<noteq> OP_BeginLine \<Longrightarrow> cur \<noteq> OP_OpenParenthesis
       \<Longrightarrow> (ErrorCode_m s' = ERROR_none \<Longrightarrow> cur \<noteq> OP_EndLine
            \<Longrightarrow> FormulaString_m s' \<le> length (Formula s'))
       \<Longrightarrow> \<exists>n r. ApplyLoop n L p cv cur vid s' = Some r \<and> result_ok False s' r"
  shows "\<exists>n0 r. result_ok True s r
     \<and> (\<forall>n\<ge>n0. (case ParseOperator m v sa of
                    Inl s' \<Rightarrow> Some (DEFAULT_RETURN, p, s')
                  | Inr (cv, cur, s') \<Rightarrow> ApplyLoop n L p cv cur vid s') = Some r)"
proof (cases "ParseOperator m v sa")
  case (Inl s2)
  from ParseOperator_frame(1)[where m=m and v=v and s=sa] Inl fs have "Formula s2 = Formula s"
    by (simp add: sum_state_def)
  with ParseOperator_Inl_error[OF Inl] have "result_ok True s (DEFAULT_RETURN, p, s2)"
    by (simp add: result_ok_def)
  with Inl show ?thesis by (intro exI[of _ 0] exI[of _ "(DEFAULT_RETURN, p, s2)"]) simp
next
  case (Inr y)
  obtain cv cur s2 where y: "y = (cv, cur, s2)" by (cases y) auto
  note po = ParseOperator_Inr[OF Inr[unfolded y]]
  show ?thesis
  proof (cases "ErrorCode_m s2 \<noteq> ERROR_none \<or> cur = OP_EndLine")
    case True
    have ok: "result_ok True s (cv, cur, s2)"
      using po True fs le by (auto simp: result_ok_def)
    have "ApplyLoop n L p cv cur vid s2 = Some (cv, cur, s2)" if "1 \<le> n" for n
    proof -
      from that obtain n' where "n = Suc n'" by (cases n) auto
      with True show ?thesis by (auto intro: ApplyLoop_stop)
    qed
    with ok Inr y show ?thesis
      by (intro exI[of _ 1] exI[of _ "(cv, cur, s2)"]) simp
  next
    case False
    with po fs le have
      m: "length (Formula s2) - FormulaString_m s2 < length (Formula s) - FormulaString_m s"
      and b: "FormulaString_m s2 \<le> length (Formula s2)"
      by auto
    from IH[OF m po(4) po(5), where p=p and cv=cv and vid=vid] b obtain n2 r where
      n2: "ApplyLoop n2 L p cv cur vid s2 = Some r" and r: "result_ok False s2 r"
      by blast
    have ok: "result_ok True s r"
      using r po fs le by (auto simp: result_ok_def)
    from n2 have "\<forall>n\<ge>n2. ApplyLoop n L p cv cur vid s2 = Some r"
      by (auto intro: ApplyLoop_fuel_le)
    with ok Inr y show ?thesis
      by (intro exI[of _ n2] exI[of _ r]) simp
  qed
qed

lemma ParseFormula_returns_step:
  assumes IH_PF: "\<And>s' p.
       length (Formula s') - FormulaString_m s' < length (Formula s) - FormulaString_m s
       \<Longrightarrow> \<exists>n r. ParseFormula n L p s' = Some r \<and> result_ok True s' r"
    and IH_AL: "\<And>s' p cv cur vid.
       length (Formula s') - FormulaString_m s' < length (Formula s) - FormulaString_m s
       \<Longrightarrow> cur \<noteq> OP_BeginLine \<Longrightarrow> cur \<noteq> OP_OpenParenthesis
       \<Longrightarrow> (ErrorCode_m s' = ERROR_none \<Longrightarrow> cur \<noteq> OP_EndLine
            \<Longrightarrow> FormulaString_m s' \<le> length (Formula s'))
       \<Longrightarrow> \<exists>n r. ApplyLoop n L p cv cur vid s' = Some r \<and> result_ok False s' r"
  shows "\<exists>n r. ParseFormula n L p s = Some r \<and> result_ok True s r"
proof (cases "ParseValue L s")
  case (Return s1)
  from ParseValue_frame(1)[where L=L and s=s] Return have "Formula s1 = Formula s" by simp
  with ParseValue_Return_error[OF Return] have "result_ok True s (DEFAULT_RETURN, p, s1)"
    by (simp add: result_ok_def)
  with ParseFormula_Return[OF Return, of 0 p] show ?thesis by blast
next
  case (Value v vid s1)
  from ParseValue_frame(1,2)[where L=L and s=s] Value
  have "Formula s1 = Formula s" "FormulaString_m s \<le> FormulaString_m s1" by simp_all
  from operator_phase_returns[OF this IH_AL, where m="MinusSignPresent s" and v=v and p=p and vid=vid]
  obtain n0 r where r: "result_ok True s r"
    and n0: "(case ParseOperator (MinusSignPresent s) v s1 of
                    Inl s' \<Rightarrow> Some (DEFAULT_RETURN, p, s')
                  | Inr (cv, cur, s') \<Rightarrow> ApplyLoop n0 L p cv cur vid s') = Some r"
    by blast
  from ParseFormula_Value[OF Value, of n0 p] n0
  have "ParseFormula (Suc n0) L p s = Some r" by simp
  with r show ?thesis by blast
next
  case (Nested fn s1)
  note pv = ParseValue_Nested[OF Nested]
  from pv have
    m: "length (Formula s1) - FormulaString_m s1 < length (Formula s) - FormulaString_m s"
    by simp
  from IH_PF[OF m, of OP_OpenParenthesis] obtain n1 r1 where
    n1: "ParseFormula n1 L OP_OpenParenthesis s1 = Some r1" and r1: "result_ok True s1 r1"
    by blast
  from CloseNested_total[OF pv(4), of L r1] obtain x where x: "CloseNested L fn r1 = Some x"
    by blast
  show ?thesis
  proof (cases x)
    case (Inl s2)
    from CloseNested_frame(1)[OF x] Inl r1 pv have "Formula s2 = Formula s"
      by (simp add: sum_state_def result_ok_def)
    with CloseNested_Inl_error[OF x[unfolded Inl]]
    have "result_ok True s (DEFAULT_RETURN, p, s2)"
      by (simp add: result_ok_def)
    with ParseFormula_Nested_Inl[OF Nested n1 x[unfolded Inl], of p] show ?thesis by blast
  next
    case (Inr y)
    obtain v vid s2 where y: "y = (v, vid, s2)" by (cases y) auto
    note cn = CloseNested_Inr[OF x[unfolded Inr y]]
    from cn r1 pv have "Formula s2 = Formula s" "FormulaString_m s \<le> FormulaString_m s2"
      by (auto simp: result_ok_def)
    from operator_phase_returns[OF this IH_AL, where m="MinusSignPresent s" and v=v and p=p and vid=vid]
    obtain n0 r where r: "result_ok True s r"
      and n0: "\<forall>n\<ge>n0. (case ParseOperator (MinusSignPresent s) v s2 of
                    Inl s' \<Rightarrow> Some (DEFAULT_RETURN, p, s')
                  | Inr (cv, cur, s') \<Rightarrow> ApplyLoop n L p cv cur vid s') = Some r"
      by blast
    let ?N = "max n0 n1"
    from n1 have "ParseFormula ?N L OP_OpenParenthesis s1 = Some r1"
      by (rule ParseFormula_fuel_le) simp
    from ParseFormula_Nested_Inr[OF Nested this x[unfolded Inr y], of p] n0
    have "ParseFormula (Suc ?N) L p s = Some r" by simp
    with r show ?thesis by blast
  qed
qed

lemma not_HasRightOperand:
  "\<not> HasRightOperand cur \<Longrightarrow> cur \<noteq> OP_CloseParenthesis \<Longrightarrow> cur \<noteq> OP_BeginLine
     \<Longrightarrow> cur \<noteq> OP_OpenParenthesis \<Longrightarrow> cur = OP_EndLine"
  by (cases cur) (simp_all add: HasRightOperand_def)

lemma ApplyLoop_returns_step:
  assumes PF: "\<And>p. \<exists>n r. ParseFormula n L p s = Some r \<and> result_ok True s r"
    and IH_AL: "\<And>s' p cv cur vid.
       length (Formula s') - FormulaString_m s' < length (Formula s) - FormulaString_m s
       \<Longrightarrow> cur \<noteq> OP_BeginLine \<Longrightarrow> cur \<noteq> OP_OpenParenthesis
       \<Longrightarrow> (ErrorCode_m s' = ERROR_none \<Longrightarrow> cur \<noteq> OP_EndLine
            \<Longrightarrow> FormulaString_m s' \<le> length (Formula s'))
       \<Longrightarrow> \<exists>n r. ApplyLoop n L p cv cur vid s' = Some r \<and> result_ok False s' r"
    and good: "cur \<noteq> OP_BeginLine" "cur \<noteq> OP_OpenParenthesis"
    and bound: "ErrorCode_m s = ERROR_none \<Longrightarrow> cur \<noteq> OP_EndLine
                  \<Longrightarrow> FormulaString_m s \<le> length (Formula s)"
  shows "\<exists>n r. ApplyLoop n L p cv cur vid s = Some r \<and> result_ok False s r"
proof (cases "ErrorCode_m s = ERROR_none \<and> ApplyCriteria cur p")
  case False
  then have "ApplyLoop (Suc 0) L p cv cur vid s = Some (cv, cur, s)"
    by (rule ApplyLoop_stop)
  moreover have "result_ok False s (cv, cur, s)"
    using good bound by (auto simp: result_ok_def)
  ultimately show ?thesis by blast
next
  case go: True
  then have ne: "cur \<noteq> OP_EndLine" by auto
  with go bound have b: "FormulaString_m s \<le> length (Formula s)" by simp
  show ?thesis
  proof (cases "cur = OP_CloseParenthesis")
    case True
    from ApplyLoop_close_terminates[of L p cv vid s] obtain n s' where
      "ApplyLoop n L p cv OP_CloseParenthesis vid s = Some (cv, OP_CloseParenthesis, s')"
      "Formula s' = Formula s" "FormulaString_m s' = FormulaString_m s"
      by blast
    moreover from this b have "result_ok False s (cv, OP_CloseParenthesis, s')"
      by (simp add: result_ok_def)
    ultimately show ?thesis using True by blast
  next
    case nc: False
    show ?thesis
    proof (cases "cur = OP_Assignment \<and> vid = NOTFOUND")
      case True
      with go have "ApplyLoop (Suc 0) L p cv cur vid s
          = Some (DEFAULT_RETURN, p, s\<lparr>ErrorCode_m := ERROR_variable_expected\<rparr>)"
        by (auto intro: ApplyLoop_variable_expected)
      moreover have "result_ok False s
          (DEFAULT_RETURN, p, s\<lparr>ErrorCode_m := ERROR_variable_expected\<rparr>)"
        by (simp add: result_ok_def)
      ultimately show ?thesis by blast
    next
      case na: False
      from not_HasRightOperand[OF _ nc good] ne have hr: "HasRightOperand cur" by blast
      from PF[of cur] obtain n1 r1 where
        n1: "ParseFormula n1 L cur s = Some r1" and r1: "result_ok True s r1"
        by blast
      obtain v op s1 where r1_eq: "r1 = (v, op, s1)" by (cases r1) auto
      let ?cv = "fst (ApplyOperator L cur cv v vid s1)"
      let ?s2 = "snd (ApplyOperator L cur cv v vid s1)"
      note ao = ApplyOperator_frame[where L=L and cur=cur and cv=cv and v=v and vid=vid
          and s=s1]
      have step: "ApplyLoop (Suc n) L p cv cur vid s = ApplyLoop n L p ?cv op vid ?s2"
        if "n1 \<le> n" for n
      proof -
        from n1 that have "ParseFormula n L cur s = Some (v, op, s1)"
          unfolding r1_eq by (rule ParseFormula_fuel_le)
        with go nc na hr show ?thesis
          by (intro ApplyLoop_operand) simp_all
      qed
      show ?thesis
      proof (cases "ErrorCode_m ?s2 \<noteq> ERROR_none \<or> op = OP_EndLine")
        case True
        then have "ApplyLoop (Suc n1) L p ?cv op vid ?s2 = Some (?cv, op, ?s2)"
          by (intro ApplyLoop_stop) auto
        with step[of "Suc n1"]
        have "ApplyLoop (Suc (Suc n1)) L p cv cur vid s = Some (?cv, op, ?s2)" by simp
        moreover have "result_ok False s (?cv, op, ?s2)"
          using r1 ao True unfolding r1_eq by (auto simp: result_ok_def)
        ultimately show ?thesis by blast
      next
        case False
        with ao(4) have e1: "ErrorCode_m s1 = ERROR_none" by auto
        with r1 False have
          g: "op \<noteq> OP_BeginLine" "op \<noteq> OP_OpenParenthesis"
          and c: "FormulaString_m s < FormulaString_m s1"
            "FormulaString_m s1 \<le> length (Formula s)"
          and f: "Formula s1 = Formula s"
          unfolding r1_eq by (auto simp: result_ok_def)
        from c f ao have
          m: "length (Formula ?s2) - FormulaString_m ?s2
                < length (Formula s) - FormulaString_m s"
          and b2: "FormulaString_m ?s2 \<le> length (Formula ?s2)"
          by auto
        from IH_AL[OF m g, where p=p and cv="?cv" and vid=vid] b2 obtain n2 r where
          n2: "ApplyLoop n2 L p ?cv op vid ?s2 = Some r" and r: "result_ok False ?s2 r"
          by blast
        let ?N = "max n1 n2"
        from n2 have "ApplyLoop ?N L p ?cv op vid ?s2 = Some r"
          by (rule ApplyLoop_fuel_le) simp
        with step[of ?N] have "ApplyLoop (Suc ?N) L p cv cur vid s = Some r" by simp
        moreover have "result_ok False s r"
          using r c f ao by (auto simp: result_ok_def)
        ultimately show ?thesis by blast
      qed
    qed
  qed
qed

text \<open>Every call of \<open>ParseFormula\<close> and every run of the loop returns.\<close>

lemma parser_returns:
  "(\<forall>p. \<exists>n r. ParseFormula n L p s = Some r \<and> result_ok True s r)
   \<and> (\<forall>p cv cur vid. cur \<noteq> OP_BeginLine \<longrightarrow> cur \<noteq> OP_OpenParenthesis
        \<longrightarrow> (ErrorCode_m s = ERROR_none \<longrightarrow> cur \<noteq> OP_EndLine
             \<longrightarrow> FormulaString_m s \<le> length (Formula s))
        \<longrightarrow> (\<exists>n r. ApplyLoop n L p cv cur vid s = Some r \<and> result_ok False s r))"
proof (induction "length (Formula s) - FormulaString_m s" arbitrary: s rule: less_induct)
  case less
  have IH_PF: "\<exists>n r. ParseFormula n L p s' = Some r \<and> result_ok True s' r"
    if "length (Formula s') - FormulaString_m s' < length (Formula s) - FormulaString_m s"
    for s' p
    using less[OF that] by blast
  have IH_AL: "\<exists>n r. ApplyLoop n L p cv cur vid s' = Some r \<and> result_ok False s' r"
    if "length (Formula s') - FormulaString_m s' < length (Formula s) - FormulaString_m s"
      and "cur \<noteq> OP_BeginLine" and "cur \<noteq> OP_OpenParenthesis"
      and "ErrorCode_m s' = ERROR_none \<Longrightarrow> cur \<noteq> OP_EndLine
            \<Longrightarrow> FormulaString_m s' \<le> length (Formula s')"
    for s' p cv cur vid
    using less[OF that(1)] that(2-4) by blast
  have PF: "\<exists>n r. ParseFormula n L p s = Some r \<and> result_ok True s r" for p
    by (rule ParseFormula_returns_step[OF IH_PF IH_AL])
  have AL: "\<exists>n r. ApplyLoop n L p cv cur vid s = Some r \<and> result_ok False s r"
    if "cur \<noteq> OP_BeginLine" and "cur \<noteq> OP_OpenParenthesis"
      and "ErrorCode_m s = ERROR_none \<Longrightarrow> cur \<noteq> OP_EndLine
            \<Longrightarrow> FormulaString_m s \<le> length (Formula s)"
    for p cv cur vid
    by (rule ApplyLoop_returns_step[OF PF IH_AL that])
  from PF AL show ?case by blast
qed

lemma evalform_returns: "\<exists>n r. evalform n L f vars = Some r"
proof -
  from parser_returns[of L "\<lparr>Formula = f, FormulaString_m = 0, ParenthesisLevel_m = 0,
          ErrorCode_m = ERROR_none, Variables_m = vars\<rparr>"]
  obtain n r where "ParseFormula n L OP_BeginLine \<lparr>Formula = f, FormulaString_m = 0,
          ParenthesisLevel_m = 0, ErrorCode_m = ERROR_none, Variables_m = vars\<rparr> = Some r"
    by blast
  moreover obtain v op s' where "r = (v, op, s')" by (cases r) auto
  ultimately have "evalform n L f vars =
      Some \<lparr>ValueResult = v, ErrorResult = errorcode_int (ErrorCode_m s'),
            f_end = FormulaString_m s', Variables_end = Variables_m s'\<rparr>"
    by (simp add: evalform_def)
  then show ?thesis by blast
qed

section \<open>Names of 32 characters or more\<close>

lemma ParseValue_Value:
  assumes "ParseValue L s = Value v vid s1"
  shows "Formula s1 = Formula s" "ErrorCode_m s1 = ErrorCode_m s"
    "ParenthesisLevel_m s1 = ParenthesisLevel_m s"
proof -
  from ParseValue_frame(1)[of L s] assms show "Formula s1 = Formula s"
    by simp
  from assms show "ErrorCode_m s1 = ErrorCode_m s"
    by (auto simp: ParseValue_def ParseName_def ParseVariable_def Let_def split: if_splits)
  from assms show "ParenthesisLevel_m s1 = ParenthesisLevel_m s"
    by (auto simp: ParseValue_def ParseName_def ParseVariable_def Let_def split: if_splits)
qed

text \<open>
  An error that the call for the right operand of \<open>+\<close>, \<open>-\<close>, \<open>*\<close> or \<open>^\<close> comes back with
  ends the loop: the state goes up as it is.
\<close>

lemma ApplyLoop_error_up:
  assumes e: "ErrorCode_m s = ERROR_none" and c: "ApplyCriteria cur p"
    and cur: "cur \<in> {OP_Add, OP_Subtract, OP_Multiply, OP_RaisePower}"
    and pf: "ParseFormula n L cur s = Some (v, op, s')"
    and err: "ErrorCode_m s' \<noteq> ERROR_none"
  shows "ApplyLoop (Suc n) L p cv cur vid s
         = Some (fst (ApplyOperator L cur cv v vid s'), op, s')"
proof -
  from pf obtain m where n: "n = Suc m" by (cases n) simp_all
  from cur have h: "cur \<noteq> OP_CloseParenthesis" "\<not> (cur = OP_Assignment \<and> vid = NOTFOUND)"
    "HasRightOperand cur" and st: "snd (ApplyOperator L cur cv v vid s') = s'"
    by (auto simp: HasRightOperand_def ApplyOperator_def)
  from ApplyLoop_operand[OF e c h pf, of cv] st
  have "ApplyLoop (Suc n) L p cv cur vid s
      = ApplyLoop n L p (fst (ApplyOperator L cur cv v vid s')) op vid s'"
    by simp
  also have "\<dots> = Some (fst (ApplyOperator L cur cv v vid s'), op, s')"
    unfolding n using err by (simp add: ApplyLoop_stop)
  finally show ?thesis .
qed

text \<open>So does an error of the call for a parenthetical expression or a function argument.\<close>

lemma ParseFormula_error_up:
  assumes "ParseValue L s = Nested fn s1"
    and "ParseFormula n L OP_OpenParenthesis s1 = Some (v, op, s')"
    and "ErrorCode_m s' \<noteq> ERROR_none"
  shows "ParseFormula (Suc n) L p s = Some (DEFAULT_RETURN, p, s')"
proof -
  from assms(3) have "CloseNested L fn (v, op, s') = Some (Inl s')"
    by (simp add: CloseNested_def)
  from ParseFormula_Nested_Inl[OF assms(1,2) this] show ?thesis .
qed

lemma evalform_name_after_operator:
  assumes s0: "s0 = \<lparr>Formula = f, FormulaString_m = 0, ParenthesisLevel_m = 0,
                     ErrorCode_m = ERROR_none, Variables_m = vars\<rparr>"
    and pv: "ParseValue L s0 = Value x xid s1"
    and po: "ParseOperator (MinusSignPresent s0) x s1 = Inr (cv, cur, s2)"
    and cur: "cur \<in> {OP_Add, OP_Subtract, OP_Multiply, OP_RaisePower}"
    and f: "f = pre @ ws @ sg @ c # cs @ rest"
    and p: "FormulaString_m s2 = length pre"
    and ws: "list_all is_white ws"
    and sg: "sg \<in> {[], ''-'', ''+''}"
    and c: "isupper c \<or> islower c \<or> c = CHR ''%''"
    and cs: "list_all (\<lambda>c. isalnum c \<or> c = CHR ''_'') cs"
    and len: "MAXTOKENLENGTH \<le> length (c # cs)"
  shows "\<exists>y. evalform (Suc (Suc (Suc n))) L f vars =
      Some \<lparr>ValueResult = y, ErrorResult = 9, f_end = length pre + length ws + length sg,
            Variables_end = Variables_m s1\<rparr>"
proof -
  let ?e = "s2\<lparr>FormulaString_m := length pre + length ws + length sg,
               ErrorCode_m := ERROR_variable_long\<rparr>"
  have f2: "Formula s2 = pre @ ws @ sg @ c # cs @ rest"
    using ParseValue_Value(1)[OF pv] ParseOperator_Inr(1)[OF po] by (simp add: s0 f)
  have e2: "ErrorCode_m s2 = ERROR_none"
    using ParseValue_Value(2)[OF pv] ParseOperator_Inr(6)[OF po] by (simp add: s0)
  have v2: "Variables_m s2 = Variables_m s1"
    using ParseOperator_frame(5)[of "MinusSignPresent s0" x s1] by (simp add: po sum_state_def)
  have crit: "ApplyCriteria cur OP_BeginLine"
    using cur by (auto simp: ApplyCriteria_def)
  have inner: "ParseFormula (Suc n) L cur s2 = Some (DEFAULT_RETURN, cur, ?e)"
    by (rule ParseFormula_name_too_long[OF f2 p ws sg c cs len])
  have "ApplyLoop (Suc (Suc n)) L OP_BeginLine cv cur xid s2
      = Some (fst (ApplyOperator L cur cv DEFAULT_RETURN xid ?e), cur, ?e)"
    by (rule ApplyLoop_error_up[OF e2 crit cur inner]) simp
  then have "ParseFormula (Suc (Suc (Suc n))) L OP_BeginLine s0
      = Some (fst (ApplyOperator L cur cv DEFAULT_RETURN xid ?e), cur, ?e)"
    by (simp add: ParseFormula_Value[OF pv] po)
  then show ?thesis
    by (simp add: evalform_def s0[symmetric] v2)
qed

text \<open>
  Where the code departs from the rule that a name of 31 or more characters gives the
  error variable-name-too-long with the table unchanged: a name of 31 characters is
  stored without an error; when
  the name of 32 characters is the divisor, the division replaces the error code by
  division-by-zero; when it is the right side of an assignment, the assignment stores
  into its variable after the error; and a variable that the formula reads before the
  name is in the table by the time the name is met.
\<close>

theorem variable_name_claim_counterexample:
  "length ''abcdefghijklmnopqrstuvwxyz01234'' = 31
   \<and> evalform 12 libc_real ''abcdefghijklmnopqrstuvwxyz01234'' [] =
       Some \<lparr>ValueResult = 0, ErrorResult = 0, f_end = 32,
             Variables_end = [(''ABCDEFGHIJKLMNOPQRSTUVWXYZ01234'', 0)]\<rparr>
   \<and> length ''abcdefghijklmnopqrstuvwxyz012345'' = 32
   \<and> evalform 12 libc_real ''1/abcdefghijklmnopqrstuvwxyz012345'' [(''A'', 7)] =
       Some \<lparr>ValueResult = 0, ErrorResult = 5, f_end = 2, Variables_end = [(''A'', 7)]\<rparr>
   \<and> evalform 12 libc_real ''a = abcdefghijklmnopqrstuvwxyz012345'' [(''A'', 7)] =
       Some \<lparr>ValueResult = 0, ErrorResult = 9, f_end = 4, Variables_end = [(''A'', 0)]\<rparr>
   \<and> evalform 12 libc_real ''b + abcdefghijklmnopqrstuvwxyz012345'' [(''A'', 7)] =
       Some \<lparr>ValueResult = 0, ErrorResult = 9, f_end = 4,
             Variables_end = [(''A'', 7), (''B'', 0)]\<rparr>"
  by (subst twelve)+ (simp add: run_simps)

text \<open>
  C7, amended. A name of 32 or more characters that \<open>ParseFormula\<close> meets as an operand,
  after white space and an optional sign, makes the call return 0 with the error
  variable-name-too-long, the pointer on the first character of the name and the
  variables as they were when the name was met. A call that has read a parenthesis or
  a function name, and the loop that applies \<open>+\<close>, \<open>-\<close>, \<open>*\<close> or \<open>^\<close>, hand that state to
  their caller as it is. So \<open>evalform\<close> reports variable-name-too-long with the table that
  it was given on a formula that begins with such a name, and with the table as the
  first operand left it on a formula where the name is the right operand of a first
  \<open>+\<close>, \<open>-\<close>, \<open>*\<close> or \<open>^\<close>. The statement leaves out what a division or an assignment does
  when its right operand comes back with this error: the loop applies them without
  looking at the error code, as it does in the section on the value returned with an
  error. The names in the table stay at most 31 characters long.
\<close>

theorem variable_name_too_long:
  "(list_all is_white ws \<and> sg \<in> {[], ''-'', ''+''}
      \<and> (isupper c \<or> islower c \<or> c = CHR ''%'')
      \<and> list_all (\<lambda>c. isalnum c \<or> c = CHR ''_'') cs \<and> 32 \<le> length (c # cs)
    \<longrightarrow>
      (Formula s = pre @ ws @ sg @ c # cs @ rest \<and> FormulaString_m s = length pre
        \<longrightarrow> ParseFormula (Suc n) L PendingOperator s =
             Some (0, PendingOperator,
                   s\<lparr>FormulaString_m := length pre + length ws + length sg,
                     ErrorCode_m := ERROR_variable_long\<rparr>))
      \<and> evalform (Suc n) L (ws @ sg @ c # cs @ rest) vars =
           Some \<lparr>ValueResult = 0, ErrorResult = 9, f_end = length ws + length sg,
                 Variables_end = vars\<rparr>
      \<and> (s0 = \<lparr>Formula = pre1 @ ws @ sg @ c # cs @ rest1, FormulaString_m = 0,
                ParenthesisLevel_m = 0, ErrorCode_m = ERROR_none, Variables_m = vars\<rparr>
          \<and> ParseValue L s0 = Value x xid s1
          \<and> ParseOperator (MinusSignPresent s0) x s1 = Inr (cv1, cur1, s2)
          \<and> cur1 \<in> {OP_Add, OP_Subtract, OP_Multiply, OP_RaisePower}
          \<and> FormulaString_m s2 = length pre1
        \<longrightarrow> (\<exists>y. evalform (Suc (Suc (Suc n))) L (pre1 @ ws @ sg @ c # cs @ rest1) vars =
               Some \<lparr>ValueResult = y, ErrorResult = 9,
                     f_end = length pre1 + length ws + length sg,
                     Variables_end = Variables_m s1\<rparr>)))
   \<and> (ErrorCode_m t = ERROR_none \<and> ApplyCriteria cur pend
        \<and> cur \<in> {OP_Add, OP_Subtract, OP_Multiply, OP_RaisePower}
        \<and> ParseFormula m L cur t = Some (v, op, t')
        \<and> ErrorCode_m t' = ERROR_variable_long
      \<longrightarrow> (\<exists>y. ApplyLoop (Suc m) L pend cv cur vid t = Some (y, op, t')))
   \<and> (ParseValue L u = Nested fn u1
        \<and> ParseFormula m L OP_OpenParenthesis u1 = Some (w, op1, u')
        \<and> ErrorCode_m u' = ERROR_variable_long
      \<longrightarrow> ParseFormula (Suc m) L pend1 u = Some (0, pend1, u'))
   \<and> (list_all (\<lambda>nv. length (fst nv) \<le> 31) vars1 \<and> evalform k L f vars1 = Some r
      \<longrightarrow> list_all (\<lambda>nv. length (fst nv) \<le> 31) (Variables_end r))"
proof -
  have a: "ParseFormula (Suc n) L PendingOperator s =
           Some (0, PendingOperator,
                 s\<lparr>FormulaString_m := length pre + length ws + length sg,
                   ErrorCode_m := ERROR_variable_long\<rparr>)"
    if "list_all is_white ws" "sg \<in> {[], ''-'', ''+''}"
      "isupper c \<or> islower c \<or> c = CHR ''%''"
      "list_all (\<lambda>c. isalnum c \<or> c = CHR ''_'') cs" "32 \<le> length (c # cs)"
      "Formula s = pre @ ws @ sg @ c # cs @ rest" "FormulaString_m s = length pre"
  proof -
    have len: "MAXTOKENLENGTH \<le> length (c # cs)"
      using that(5) by (simp add: MAXTOKENLENGTH_def)
    from ParseFormula_name_too_long[OF that(6,7,1-4) len, of n L PendingOperator]
    show ?thesis by (simp add: DEFAULT_RETURN_def)
  qed
  have b: "evalform (Suc n) L (ws @ sg @ c # cs @ rest) vars =
           Some \<lparr>ValueResult = 0, ErrorResult = 9, f_end = length ws + length sg,
                 Variables_end = vars\<rparr>"
    if "list_all is_white ws" "sg \<in> {[], ''-'', ''+''}"
      "isupper c \<or> islower c \<or> c = CHR ''%''"
      "list_all (\<lambda>c. isalnum c \<or> c = CHR ''_'') cs" "32 \<le> length (c # cs)"
  proof -
    have len: "MAXTOKENLENGTH \<le> length (c # cs)"
      using that(5) by (simp add: MAXTOKENLENGTH_def)
    let ?s0 = "\<lparr>Formula = ws @ sg @ c # cs @ rest, FormulaString_m = 0,
                ParenthesisLevel_m = 0, ErrorCode_m = ERROR_none, Variables_m = vars\<rparr>"
    have "ParseFormula (Suc n) L OP_BeginLine ?s0 =
       Some (DEFAULT_RETURN, OP_BeginLine,
             ?s0\<lparr>FormulaString_m := length ([]::string) + length ws + length sg,
               ErrorCode_m := ERROR_variable_long\<rparr>)"
      by (rule ParseFormula_name_too_long[OF _ _ that(1-4) len]) simp_all
    then show ?thesis
      by (simp add: evalform_def DEFAULT_RETURN_def)
  qed
  have e: "\<exists>y. evalform (Suc (Suc (Suc n))) L (pre1 @ ws @ sg @ c # cs @ rest1) vars =
               Some \<lparr>ValueResult = y, ErrorResult = 9,
                     f_end = length pre1 + length ws + length sg,
                     Variables_end = Variables_m s1\<rparr>"
    if "list_all is_white ws" "sg \<in> {[], ''-'', ''+''}"
      "isupper c \<or> islower c \<or> c = CHR ''%''"
      "list_all (\<lambda>c. isalnum c \<or> c = CHR ''_'') cs" "32 \<le> length (c # cs)"
      "s0 = \<lparr>Formula = pre1 @ ws @ sg @ c # cs @ rest1, FormulaString_m = 0,
                ParenthesisLevel_m = 0, ErrorCode_m = ERROR_none, Variables_m = vars\<rparr>"
      "ParseValue L s0 = Value x xid s1"
      "ParseOperator (MinusSignPresent s0) x s1 = Inr (cv1, cur1, s2)"
      "cur1 \<in> {OP_Add, OP_Subtract, OP_Multiply, OP_RaisePower}"
      "FormulaString_m s2 = length pre1"
  proof -
    have len: "MAXTOKENLENGTH \<le> length (c # cs)"
      using that(5) by (simp add: MAXTOKENLENGTH_def)
    show ?thesis
      by (rule evalform_name_after_operator[OF that(6-9) refl that(10) that(1-4) len])
  qed
  have l: "\<exists>y. ApplyLoop (Suc m) L pend cv cur vid t = Some (y, op, t')"
    if "ErrorCode_m t = ERROR_none" "ApplyCriteria cur pend"
      "cur \<in> {OP_Add, OP_Subtract, OP_Multiply, OP_RaisePower}"
      "ParseFormula m L cur t = Some (v, op, t')" "ErrorCode_m t' = ERROR_variable_long"
    using ApplyLoop_error_up[OF that(1-4), of cv vid] that(5) by simp
  have p: "ParseFormula (Suc m) L pend1 u = Some (0, pend1, u')"
    if "ParseValue L u = Nested fn u1"
      "ParseFormula m L OP_OpenParenthesis u1 = Some (w, op1, u')"
      "ErrorCode_m u' = ERROR_variable_long"
    using ParseFormula_error_up[OF that(1,2), of pend1] that(3)
    by (simp add: DEFAULT_RETURN_def)
  have c: "list_all (\<lambda>nv. length (fst nv) \<le> 31) (Variables_end r)"
    if v: "list_all (\<lambda>nv. length (fst nv) \<le> 31) vars1" and e: "evalform k L f vars1 = Some r"
  proof -
    from e obtain v op s' where
      pf: "ParseFormula k L OP_BeginLine \<lparr>Formula = f, FormulaString_m = 0,
          ParenthesisLevel_m = 0, ErrorCode_m = ERROR_none, Variables_m = vars1\<rparr> = Some (v, op, s')"
      and r: "Variables_end r = Variables_m s'"
      by (auto simp: evalform_def split: option.splits)
    have eq: "(\<lambda>nv::string \<times> real. length (fst nv) \<le> 31)
        = (\<lambda>nv. length (fst nv) < MAXTOKENLENGTH)"
      by (auto simp: MAXTOKENLENGTH_def)
    from names_bounded[OF _ pf] v show ?thesis
      by (simp add: r eq)
  qed
  from a b e l p c show ?thesis by blast
qed


theorem variable_name_too_long_witness:
  "ParseFormula (Suc 0) libc_real OP_Add
      \<lparr>Formula = ''1 + abcdefghijklmnopqrstuvwxyz012345'', FormulaString_m = 3,
       ParenthesisLevel_m = 0, ErrorCode_m = ERROR_none, Variables_m = [(''A'', 7)]\<rparr>
     = Some (0, OP_Add,
      \<lparr>Formula = ''1 + abcdefghijklmnopqrstuvwxyz012345'', FormulaString_m = 4,
       ParenthesisLevel_m = 0, ErrorCode_m = ERROR_variable_long,
       Variables_m = [(''A'', 7)]\<rparr>)
   \<and> evalform (Suc 0) libc_real '' abcdefghijklmnopqrstuvwxyz012345'' [(''A'', 7)] =
       Some \<lparr>ValueResult = 0, ErrorResult = 9, f_end = 1, Variables_end = [(''A'', 7)]\<rparr>
   \<and> (\<exists>y. evalform (Suc (Suc (Suc 0))) libc_real ''1 + abcdefghijklmnopqrstuvwxyz012345''
             [(''A'', 7)] =
       Some \<lparr>ValueResult = y, ErrorResult = 9, f_end = 4, Variables_end = [(''A'', 7)]\<rparr>)
   \<and> (\<exists>y. ApplyLoop (Suc (Suc 0)) libc_real OP_BeginLine 1 OP_Add NOTFOUND
      \<lparr>Formula = ''1 + abcdefghijklmnopqrstuvwxyz012345'', FormulaString_m = 3,
       ParenthesisLevel_m = 0, ErrorCode_m = ERROR_none, Variables_m = [(''A'', 7)]\<rparr>
     = Some (y, OP_Add,
      \<lparr>Formula = ''1 + abcdefghijklmnopqrstuvwxyz012345'', FormulaString_m = 4,
       ParenthesisLevel_m = 0, ErrorCode_m = ERROR_variable_long,
       Variables_m = [(''A'', 7)]\<rparr>))
   \<and> ParseFormula (Suc (Suc 0)) libc_real OP_Multiply
      \<lparr>Formula = ''2 * (abcdefghijklmnopqrstuvwxyz012345'', FormulaString_m = 3,
       ParenthesisLevel_m = 0, ErrorCode_m = ERROR_none, Variables_m = [(''A'', 7)]\<rparr>
     = Some (0, OP_Multiply,
      \<lparr>Formula = ''2 * (abcdefghijklmnopqrstuvwxyz012345'', FormulaString_m = 5,
       ParenthesisLevel_m = 1, ErrorCode_m = ERROR_variable_long,
       Variables_m = [(''A'', 7)]\<rparr>)
   \<and> list_all (\<lambda>nv. length (fst nv) \<le> 31) [(''A'', 7::real), (''B'', 0)]
   \<and> evalform 12 libc_real ''2 * (3 - sin(abcdefghijklmnopqrstuvwxyz012345))'' [(''A'', 7)] =
       Some \<lparr>ValueResult = 0, ErrorResult = 9, f_end = 13, Variables_end = [(''A'', 7)]\<rparr>"
  using variable_name_too_long[where
      ws = "'' ''" and sg = "[]" and c = "CHR ''a''"
      and cs = "''bcdefghijklmnopqrstuvwxyz012345''"
      and s = "\<lparr>Formula = ''1 + abcdefghijklmnopqrstuvwxyz012345'', FormulaString_m = 3,
       ParenthesisLevel_m = 0, ErrorCode_m = ERROR_none, Variables_m = [(''A'', 7)]\<rparr>"
      and pre = "''1 +''" and rest = "[]" and n = 0
      and L = libc_real and PendingOperator = OP_Add and vars = "[(''A'', 7)]"
      and ?s0.0 = "\<lparr>Formula = ''1 + abcdefghijklmnopqrstuvwxyz012345'', FormulaString_m = 0,
       ParenthesisLevel_m = 0, ErrorCode_m = ERROR_none, Variables_m = [(''A'', 7)]\<rparr>"
      and ?pre1.0 = "''1 +''" and ?rest1.0 = "[]" and x = 1 and xid = NOTFOUND
      and ?s1.0 = "\<lparr>Formula = ''1 + abcdefghijklmnopqrstuvwxyz012345'', FormulaString_m = 1,
       ParenthesisLevel_m = 0, ErrorCode_m = ERROR_none, Variables_m = [(''A'', 7)]\<rparr>"
      and ?cv1.0 = 1 and ?cur1.0 = OP_Add
      and ?s2.0 = "\<lparr>Formula = ''1 + abcdefghijklmnopqrstuvwxyz012345'', FormulaString_m = 3,
       ParenthesisLevel_m = 0, ErrorCode_m = ERROR_none, Variables_m = [(''A'', 7)]\<rparr>"
      and t = "\<lparr>Formula = ''1 + abcdefghijklmnopqrstuvwxyz012345'', FormulaString_m = 3,
       ParenthesisLevel_m = 0, ErrorCode_m = ERROR_none, Variables_m = [(''A'', 7)]\<rparr>"
      and cur = OP_Add and pend = OP_BeginLine and m = "Suc 0" and v = 0 and op = OP_Add
      and t' = "\<lparr>Formula = ''1 + abcdefghijklmnopqrstuvwxyz012345'', FormulaString_m = 4,
       ParenthesisLevel_m = 0, ErrorCode_m = ERROR_variable_long,
       Variables_m = [(''A'', 7)]\<rparr>"
      and cv = 1 and vid = NOTFOUND
      and u = "\<lparr>Formula = ''2 * (abcdefghijklmnopqrstuvwxyz012345'', FormulaString_m = 3,
       ParenthesisLevel_m = 0, ErrorCode_m = ERROR_none, Variables_m = [(''A'', 7)]\<rparr>"
      and fn = None
      and ?u1.0 = "\<lparr>Formula = ''2 * (abcdefghijklmnopqrstuvwxyz012345'', FormulaString_m = 5,
       ParenthesisLevel_m = 1, ErrorCode_m = ERROR_none, Variables_m = [(''A'', 7)]\<rparr>"
      and w = 0 and ?op1.0 = OP_OpenParenthesis
      and u' = "\<lparr>Formula = ''2 * (abcdefghijklmnopqrstuvwxyz012345'', FormulaString_m = 5,
       ParenthesisLevel_m = 1, ErrorCode_m = ERROR_variable_long,
       Variables_m = [(''A'', 7)]\<rparr>"
      and ?pend1.0 = OP_Multiply
      and ?vars1.0 = "[(''A'', 7)]" and f = "''b''" and k = "Suc (Suc 0)"
      and r = "\<lparr>ValueResult = 0, ErrorResult = 0, f_end = 2,
               Variables_end = [(''A'', 7), (''B'', 0)]\<rparr>"]
  by (subst twelve) (simp add: run_simps)

section \<open>Names that are not functions\<close>

lemma ParseValue_name_token:
  assumes f: "Formula s = pre @ ws @ sg @ c # cs @ rest"
    and p: "FormulaString_m s = length pre"
    and ws: "list_all is_white ws"
    and sg: "sg \<in> {[], ''-'', ''+''}"
    and c: "isupper c \<or> islower c \<or> c = CHR ''%''"
    and cs: "list_all (\<lambda>c. isalnum c \<or> c = CHR ''_'') cs"
    and rest: "takeWhile (\<lambda>c. isalnum c \<or> c = CHR ''_'') rest = []"
    and len: "length (c # cs) < MAXTOKENLENGTH"
    and tok: "map toupper (c # cs) \<noteq> ''%E''" "map toupper (c # cs) \<noteq> ''%PI''"
      "LookupFunction (map toupper (c # cs)) = FUNC_err"
  shows "ParseValue L s = ParseVariable L (map toupper (c # cs))
           (s\<lparr>FormulaString_m := length pre + length ws + length sg + length (c # cs)\<rparr>)"
proof -
  let ?p2 = "length pre + length ws + length sg"
  have p2: "SkipSign (Formula s) (FormulaString_m s) = ?p2"
    using SkipSign_append[OF ws sg c, of pre "cs @ rest"] by (simp add: f p)
  have pk: "peek (Formula s) ?p2 = c"
    using peek_append_length[of "pre @ ws @ sg" c "cs @ rest"] by (simp add: f add.assoc)
  have tl: "GetNextTokenLength (Formula s) ?p2 = Suc (length cs)"
    using GetNextTokenLength_append[OF c cs, of "pre @ ws @ sg" rest] rest
    by (simp add: f add.assoc)
  have cp: "CopyUppercaseString (Formula s) ?p2 (Suc (length cs)) = map toupper (c # cs)"
    using append_eq_conv_conj[of "pre @ ws @ sg" "c # cs @ rest" "Formula s"]
    by (simp add: CopyUppercaseString_def f add.assoc)
  have pn: "ParseName L (s\<lparr>FormulaString_m := ?p2\<rparr>)
      = ParseVariable L (map toupper (c # cs))
           (s\<lparr>FormulaString_m := ?p2 + Suc (length cs)\<rparr>)"
    using len tok by (simp add: ParseName_def Let_def tl cp del: list.map)
  show ?thesis
    using name_start_not[OF c] by (simp add: ParseValue_def Let_def p2 pk pn del: list.map)
qed

text \<open>
  C9. \<open>evalform\<close> returns for every formula, table and C library when the bound is
  large enough, and it never returns the code of the error unknown-function. A name that is
  not one of the two constants and not in the function registry is a variable: the value
  phase looks it up, or creates it with the value 0, or fails with variable-table-full
  or heap-full when it cannot create it.
\<close>

theorem unknown_function_unreachable:
  "(\<exists>n r. evalform n L f vars = Some r)
   \<and> (evalform n L f vars = Some r \<longrightarrow> ErrorResult r \<noteq> errorcode_int ERROR_function)
   \<and> (Formula s = pre @ ws @ sg @ c # cs @ rest \<and> FormulaString_m s = length pre
        \<and> list_all is_white ws \<and> sg \<in> {[], ''-'', ''+''}
        \<and> (isupper c \<or> islower c \<or> c = CHR ''%'')
        \<and> list_all (\<lambda>c. isalnum c \<or> c = CHR ''_'') cs
        \<and> takeWhile (\<lambda>c. isalnum c \<or> c = CHR ''_'') rest = []
        \<and> length (c # cs) < 32
        \<and> tok = map toupper (c # cs) \<and> tok \<noteq> ''%E'' \<and> tok \<noteq> ''%PI''
        \<and> LookupFunction tok = FUNC_err
        \<and> s' = s\<lparr>FormulaString_m := length pre + length ws + length sg + length (c # cs)\<rparr>
      \<longrightarrow> ParseValue L s =
           (if tok \<in> fst ` set (Variables_m s)
            then Value (snd (Variables_m s ! nat (GetVariableID (Variables_m s) tok)))
                   (GetVariableID (Variables_m s) tok) s'
            else if 128 \<le> length (Variables_m s)
            then Return (s'\<lparr>ErrorCode_m := ERROR_variable_full\<rparr>)
            else if \<not> c_calloc_ok L (length tok + 1)
            then Return (s'\<lparr>ErrorCode_m := ERROR_heap_full\<rparr>)
            else Value 0 (int (length (Variables_m s)))
                   (s'\<lparr>Variables_m := Variables_m s @ [(tok, 0)]\<rparr>)))"
proof (intro conjI impI)
  show "\<exists>n r. evalform n L f vars = Some r"
    by (rule evalform_returns)
next
  assume e: "evalform n L f vars = Some r"
  then obtain v op s' where
    pf: "ParseFormula n L OP_BeginLine \<lparr>Formula = f, FormulaString_m = 0,
          ParenthesisLevel_m = 0, ErrorCode_m = ERROR_none, Variables_m = vars\<rparr> = Some (v, op, s')"
    and r: "ErrorResult r = errorcode_int (ErrorCode_m s')"
    by (auto simp: evalform_def split: option.splits)
  from no_ERROR_function[OF _ pf] have "ErrorCode_m s' \<noteq> ERROR_function" by simp
  then show "ErrorResult r \<noteq> errorcode_int ERROR_function"
    by (cases "ErrorCode_m s'") (simp_all add: r)
next
  assume a: "Formula s = pre @ ws @ sg @ c # cs @ rest \<and> FormulaString_m s = length pre
        \<and> list_all is_white ws \<and> sg \<in> {[], ''-'', ''+''}
        \<and> (isupper c \<or> islower c \<or> c = CHR ''%'')
        \<and> list_all (\<lambda>c. isalnum c \<or> c = CHR ''_'') cs
        \<and> takeWhile (\<lambda>c. isalnum c \<or> c = CHR ''_'') rest = []
        \<and> length (c # cs) < 32
        \<and> tok = map toupper (c # cs) \<and> tok \<noteq> ''%E'' \<and> tok \<noteq> ''%PI''
        \<and> LookupFunction tok = FUNC_err
        \<and> s' = s\<lparr>FormulaString_m := length pre + length ws + length sg + length (c # cs)\<rparr>"
  then have h: "Formula s = pre @ ws @ sg @ c # cs @ rest" "FormulaString_m s = length pre"
    "list_all is_white ws" "sg \<in> {[], ''-'', ''+''}"
    "isupper c \<or> islower c \<or> c = CHR ''%''"
    "list_all (\<lambda>c. isalnum c \<or> c = CHR ''_'') cs"
    "takeWhile (\<lambda>c. isalnum c \<or> c = CHR ''_'') rest = []"
    "length (c # cs) < MAXTOKENLENGTH"
    and t: "tok = map toupper (c # cs)"
    and h': "tok \<noteq> ''%E''" "tok \<noteq> ''%PI''" "LookupFunction tok = FUNC_err"
    and s': "s' = s\<lparr>FormulaString_m := length pre + length ws + length sg + length (c # cs)\<rparr>"
    by (auto simp: MAXTOKENLENGTH_def)
  have pv: "ParseValue L s = ParseVariable L tok s'"
    unfolding t s'
    by (rule ParseValue_name_token[OF h h'[unfolded t]])
  have vs: "Variables_m s' = Variables_m s" using s' by simp
  show "ParseValue L s =
           (if tok \<in> fst ` set (Variables_m s)
            then Value (snd (Variables_m s ! nat (GetVariableID (Variables_m s) tok)))
                   (GetVariableID (Variables_m s) tok) s'
            else if 128 \<le> length (Variables_m s)
            then Return (s'\<lparr>ErrorCode_m := ERROR_variable_full\<rparr>)
            else if \<not> c_calloc_ok L (length tok + 1)
            then Return (s'\<lparr>ErrorCode_m := ERROR_heap_full\<rparr>)
            else Value 0 (int (length (Variables_m s)))
                   (s'\<lparr>Variables_m := Variables_m s @ [(tok, 0)]\<rparr>))"
  proof (cases "tok \<in> fst ` set (Variables_m s)")
    case True
    with ParseVariable_existing[of tok s' L] show ?thesis by (simp add: pv vs)
  next
    case nf: False
    show ?thesis
    proof (cases "128 \<le> length (Variables_m s)")
      case True
      with nf ParseVariable_full[of tok s' L] show ?thesis
        by (simp add: pv vs MAXNUMBERVAR_def)
    next
      case False
      with nf show ?thesis
        by (simp add: pv vs ParseVariable_def Let_def AssignVariable_def GetVariableID_NOTFOUND
            MAXNUMBERVAR_def NOROOM_def NOHEAP_def)
    qed
  qed
qed

theorem unknown_function_unreachable_witness:
  "evalform 12 libc_real ''foo(2)'' [] =
      Some \<lparr>ValueResult = 0, ErrorResult = 4, f_end = 3, Variables_end = [(''FOO'', 0)]\<rparr>
   \<and> ErrorResult \<lparr>ValueResult = 0, ErrorResult = 4, f_end = 3, Variables_end = [(''FOO'', 0)]\<rparr>
       \<noteq> errorcode_int ERROR_function
   \<and> ParseValue libc_real \<lparr>Formula = ''foo(2)'', FormulaString_m = 0, ParenthesisLevel_m = 0,
          ErrorCode_m = ERROR_none, Variables_m = []\<rparr>
      = Value 0 0 \<lparr>Formula = ''foo(2)'', FormulaString_m = 3, ParenthesisLevel_m = 0,
          ErrorCode_m = ERROR_none, Variables_m = [(''FOO'', 0)]\<rparr>"
proof -
  have e: "evalform 12 libc_real ''foo(2)'' [] =
      Some \<lparr>ValueResult = 0, ErrorResult = 4, f_end = 3, Variables_end = [(''FOO'', 0)]\<rparr>"
    by (subst twelve) (simp add: run_simps)
  have t: "map toupper ''foo'' = ''FOO''"
    by (simp add: toupper_def islower_def char_of_def bit_Suc_0_iff)
  note u = unknown_function_unreachable[where n = 12 and L = libc_real and f = "''foo(2)''"
      and vars = "[]"
      and r = "\<lparr>ValueResult = 0, ErrorResult = 4, f_end = 3, Variables_end = [(''FOO'', 0)]\<rparr>"
      and s = "\<lparr>Formula = ''foo(2)'', FormulaString_m = 0, ParenthesisLevel_m = 0,
          ErrorCode_m = ERROR_none, Variables_m = []\<rparr>"
      and pre = "[]" and ws = "[]" and sg = "[]" and c = "CHR ''f''" and cs = "''oo''"
      and rest = "''(2)''" and tok = "''FOO''"
      and s' = "\<lparr>Formula = ''foo(2)'', FormulaString_m = 3, ParenthesisLevel_m = 0,
          ErrorCode_m = ERROR_none, Variables_m = []\<rparr>"]
  from u e t show ?thesis
    by (simp add: isalnum_def isupper_def islower_def isdigit_def LookupFunction_def
        libc_real_def)
qed

section \<open>The capacity of the symbol table\<close>

text \<open>
  C8. A table of at most 128 variables stays one, under \<open>AssignVariable\<close> and under
  \<open>evalform\<close>. Assigning a name that is in the table overwrites its value in place, and
  reading it as an operand gives its value and leaves the state as it is. A name that is
  not in a table of 128 entries makes \<open>AssignVariable\<close> return \<open>NOROOM\<close>, and \<open>evalform\<close>
  on a formula that begins with such a name returns 0 with the error variable-table-full.
\<close>

theorem symbol_table_capacity:
  "(length vars \<le> 128 \<longrightarrow> length (snd (AssignVariable L vars name v)) \<le> 128)
   \<and> (length vars \<le> 128 \<longrightarrow> evalform n L f vars = Some r
        \<longrightarrow> length (Variables_end r) \<le> 128)
   \<and> (name \<in> fst ` set vars \<longrightarrow>
        AssignVariable L vars name v
          = (GetVariableID vars name, vars[nat (GetVariableID vars name) := (name, v)])
        \<and> 0 \<le> GetVariableID vars name \<and> nat (GetVariableID vars name) < length vars
        \<and> fst (vars ! nat (GetVariableID vars name)) = name)
   \<and> (name \<in> fst ` set (Variables_m s) \<longrightarrow>
        ParseVariable L name s
          = Value (snd (Variables_m s ! nat (GetVariableID (Variables_m s) name)))
              (GetVariableID (Variables_m s) name) s)
   \<and> (name \<notin> fst ` set vars \<and> 128 \<le> length vars \<longrightarrow>
        AssignVariable L vars name v = (NOROOM, vars))
   \<and> (list_all is_white ws \<and> sg \<in> {[], ''-'', ''+''}
        \<and> (isupper c \<or> islower c \<or> c = CHR ''%'')
        \<and> list_all (\<lambda>c. isalnum c \<or> c = CHR ''_'') cs
        \<and> takeWhile (\<lambda>c. isalnum c \<or> c = CHR ''_'') rest = []
        \<and> length (c # cs) < 32
        \<and> map toupper (c # cs) \<noteq> ''%E'' \<and> map toupper (c # cs) \<noteq> ''%PI''
        \<and> LookupFunction (map toupper (c # cs)) = FUNC_err
        \<and> map toupper (c # cs) \<notin> fst ` set vars \<and> 128 \<le> length vars
      \<longrightarrow> evalform (Suc k) L (ws @ sg @ c # cs @ rest) vars =
           Some \<lparr>ValueResult = 0, ErrorResult = 8,
                 f_end = length ws + length sg + length (c # cs), Variables_end = vars\<rparr>)"
proof -
  have p1: "length (snd (AssignVariable L vars name v)) \<le> 128" if "length vars \<le> 128"
    using that AssignVariable_length[of vars L name v] by (simp add: MAXNUMBERVAR_def)
  have p2: "length (Variables_end r) \<le> 128"
    if l: "length vars \<le> 128" and e: "evalform n L f vars = Some r"
  proof -
    from e obtain v op s' where
      pf: "ParseFormula n L OP_BeginLine \<lparr>Formula = f, FormulaString_m = 0,
          ParenthesisLevel_m = 0, ErrorCode_m = ERROR_none, Variables_m = vars\<rparr> = Some (v, op, s')"
      and r: "Variables_end r = Variables_m s'"
      by (auto simp: evalform_def split: option.splits)
    from table_bounded[OF _ pf] l show ?thesis
      by (simp add: r MAXNUMBERVAR_def)
  qed
  have p3: "AssignVariable L vars name v
          = (GetVariableID vars name, vars[nat (GetVariableID vars name) := (name, v)])
        \<and> 0 \<le> GetVariableID vars name \<and> nat (GetVariableID vars name) < length vars
        \<and> fst (vars ! nat (GetVariableID vars name)) = name"
    if a: "name \<in> fst ` set vars"
    using AssignVariable_existing[OF a, of L v] GetVariableID_found[OF a] by simp
  have p4: "ParseVariable L name s
          = Value (snd (Variables_m s ! nat (GetVariableID (Variables_m s) name)))
              (GetVariableID (Variables_m s) name) s"
    if "name \<in> fst ` set (Variables_m s)"
    using that by (rule ParseVariable_existing)
  have p5: "AssignVariable L vars name v = (NOROOM, vars)"
    if "name \<notin> fst ` set vars \<and> 128 \<le> length vars"
    using that AssignVariable_full[of name vars L v] by (simp add: MAXNUMBERVAR_def)
  have p6: "evalform (Suc k) L (ws @ sg @ c # cs @ rest) vars =
           Some \<lparr>ValueResult = 0, ErrorResult = 8,
                 f_end = length ws + length sg + length (c # cs), Variables_end = vars\<rparr>"
    if a: "list_all is_white ws \<and> sg \<in> {[], ''-'', ''+''}
        \<and> (isupper c \<or> islower c \<or> c = CHR ''%'')
        \<and> list_all (\<lambda>c. isalnum c \<or> c = CHR ''_'') cs
        \<and> takeWhile (\<lambda>c. isalnum c \<or> c = CHR ''_'') rest = []
        \<and> length (c # cs) < 32
        \<and> map toupper (c # cs) \<noteq> ''%E'' \<and> map toupper (c # cs) \<noteq> ''%PI''
        \<and> LookupFunction (map toupper (c # cs)) = FUNC_err
        \<and> map toupper (c # cs) \<notin> fst ` set vars \<and> 128 \<le> length vars"
  proof -
    let ?s0 = "\<lparr>Formula = ws @ sg @ c # cs @ rest, FormulaString_m = 0, ParenthesisLevel_m = 0,
              ErrorCode_m = ERROR_none, Variables_m = vars\<rparr>"
    let ?s1 = "?s0\<lparr>FormulaString_m := length ([]::string) + length ws + length sg + length (c # cs)\<rparr>"
    from a have h: "list_all is_white ws" "sg \<in> {[], ''-'', ''+''}"
      "isupper c \<or> islower c \<or> c = CHR ''%''"
      "list_all (\<lambda>c. isalnum c \<or> c = CHR ''_'') cs"
      "takeWhile (\<lambda>c. isalnum c \<or> c = CHR ''_'') rest = []"
      "length (c # cs) < MAXTOKENLENGTH"
      "map toupper (c # cs) \<noteq> ''%E''" "map toupper (c # cs) \<noteq> ''%PI''"
      "LookupFunction (map toupper (c # cs)) = FUNC_err"
      and nf: "map toupper (c # cs) \<notin> fst ` set (Variables_m ?s1)"
      and full: "MAXNUMBERVAR \<le> length (Variables_m ?s1)"
      by (simp_all add: MAXTOKENLENGTH_def MAXNUMBERVAR_def del: list.map)
    have "ParseValue L ?s0 = ParseVariable L (map toupper (c # cs)) ?s1"
      by (rule ParseValue_name_token[OF _ _ h]) simp_all
    also have "\<dots> = Return (?s1\<lparr>ErrorCode_m := ERROR_variable_full\<rparr>)"
      by (rule ParseVariable_full[OF nf full])
    finally show ?thesis
      by (simp add: evalform_def ParseFormula.simps(2) DEFAULT_RETURN_def)
  qed
  from p1 p2 p3 p4 p5 p6 show ?thesis by blast
qed

theorem symbol_table_capacity_witness:
  "evalform (Suc 0) libc_real ''x''
      (concat (map (\<lambda>a. map (\<lambda>b. ([a, b], 0)) ''ABCDEFGH'') ''ABCDEFGHIJKLMNOP''))
     = Some \<lparr>ValueResult = 0, ErrorResult = 8, f_end = 1,
         Variables_end =
           concat (map (\<lambda>a. map (\<lambda>b. ([a, b], 0)) ''ABCDEFGH'') ''ABCDEFGHIJKLMNOP'')\<rparr>
   \<and> length (concat (map (\<lambda>a. map (\<lambda>b. ([a, b], 0::real)) ''ABCDEFGH'') ''ABCDEFGHIJKLMNOP''))
       = 128
   \<and> AssignVariable libc_real [(''A'', 1), (''B'', 2)] ''B'' 5 = (1, [(''A'', 1), (''B'', 5)])"
proof -
  let ?T = "concat (map (\<lambda>a. map (\<lambda>b. ([a, b], 0::real)) ''ABCDEFGH'') ''ABCDEFGHIJKLMNOP'')"
  have l: "length ?T = 128" by simp
  have nf: "''X'' \<notin> fst ` set ?T" by simp
  have t: "map toupper ''x'' = ''X''"
    by (simp add: toupper_def islower_def char_of_def bit_Suc_0_iff)
  note u = symbol_table_capacity[where vars = ?T and L = libc_real and ws = "[]" and sg = "[]"
      and c = "CHR ''x''" and cs = "[]" and rest = "[]" and k = 0]
    symbol_table_capacity[where vars = "[(''A'', 1), (''B'', 2)]" and name = "''B''" and v = 5
      and L = libc_real]
  have g: "GetVariableID [(''A'', 1), (''B'', 2)] ''B'' = 1"
    by (simp add: GetVariableID_def)
  from u l nf t g show ?thesis
    by (simp add: isupper_def islower_def LookupFunction_def del: set_concat concat.simps list.map)
qed

section \<open>Chained assignment\<close>

text \<open>
  C4. \<open>evalform\<close> on \<open>a0 = a1 = a2 = sqrt(2)\<close> returns the square root of 2 and stores it
  in A0, A1 and A2, which it creates when they are absent and overwrites in place when
  they are there. The loop applies an assignment when its rank is at least the rank of
  the pending operator, and every other operator only when its rank is greater: so a
  pending assignment does not stop an assignment, and every other operator stops itself.
\<close>

theorem chained_assignment:
  "evalform (12 + k) libc_real ''a0 = a1 = a2 = sqrt(2)'' [] =
     Some \<lparr>ValueResult = sqrt 2, ErrorResult = 0, f_end = 23,
           Variables_end = [(''A0'', sqrt 2), (''A1'', sqrt 2), (''A2'', sqrt 2)]\<rparr>
   \<and> evalform (12 + k) libc_real ''a0 = a1 = a2 = sqrt(2)'' [(''A1'', 7), (''X'', 1)] =
     Some \<lparr>ValueResult = sqrt 2, ErrorResult = 0, f_end = 23,
           Variables_end = [(''A1'', sqrt 2), (''X'', 1), (''A0'', sqrt 2), (''A2'', sqrt 2)]\<rparr>
   \<and> (ApplyCriteria CurrentOperator PendingOperator \<longleftrightarrow>
        (if CurrentOperator = OP_Assignment
         then operator_rank CurrentOperator \<ge> operator_rank PendingOperator
         else operator_rank CurrentOperator > operator_rank PendingOperator))
   \<and> ApplyCriteria OP_Assignment OP_Assignment
   \<and> (CurrentOperator \<noteq> OP_Assignment \<longrightarrow> \<not> ApplyCriteria CurrentOperator CurrentOperator)"
proof -
  have a: "evalform 12 libc_real ''a0 = a1 = a2 = sqrt(2)'' [] =
     Some \<lparr>ValueResult = sqrt 2, ErrorResult = 0, f_end = 23,
           Variables_end = [(''A0'', sqrt 2), (''A1'', sqrt 2), (''A2'', sqrt 2)]\<rparr>"
    by (subst twelve) (simp add: run_simps)
  have b: "evalform 12 libc_real ''a0 = a1 = a2 = sqrt(2)'' [(''A1'', 7), (''X'', 1)] =
     Some \<lparr>ValueResult = sqrt 2, ErrorResult = 0, f_end = 23,
           Variables_end = [(''A1'', sqrt 2), (''X'', 1), (''A0'', sqrt 2), (''A2'', sqrt 2)]\<rparr>"
    by (subst twelve) (simp add: run_simps)
  show ?thesis
    using evalform_fuel[OF a, of k] evalform_fuel[OF b, of k]
    by (simp add: ApplyCriteria_def)
qed

theorem chained_assignment_witness:
  "evalform 12 libc_real ''a0 = a1 = a2 = sqrt(2)'' [] =
     Some \<lparr>ValueResult = sqrt 2, ErrorResult = 0, f_end = 23,
           Variables_end = [(''A0'', sqrt 2), (''A1'', sqrt 2), (''A2'', sqrt 2)]\<rparr>
   \<and> ApplyCriteria OP_Assignment OP_Assignment \<and> \<not> ApplyCriteria OP_RaisePower OP_RaisePower
   \<and> ApplyCriteria OP_Multiply OP_Add \<and> \<not> ApplyCriteria OP_Add OP_Multiply"
  using chained_assignment[of 0 OP_RaisePower OP_RaisePower]
    chained_assignment[of 0 OP_Multiply OP_Add] chained_assignment[of 0 OP_Add OP_Multiply]
  by simp

section \<open>The value returned with an error\<close>

text \<open>
  C2. A call whose loop stops on an error returns the value it has accumulated, not
  \<open>DEFAULT_RETURN\<close>: \<open>evalform\<close> returns 3 with the error unmatched-close-paren on
  \<open>1+2)\<close>, 2 with the error division-by-zero on \<open>2+1/0\<close>, and 2 with the error
  bad-operator on \<open>2+3$\<close>.
\<close>

theorem error_value_not_default:
  "evalform (12 + k) libc_real ''1+2)'' vars =
     Some \<lparr>ValueResult = 3, ErrorResult = 3, f_end = 4, Variables_end = vars\<rparr>
   \<and> evalform (12 + k) libc_real ''2+1/0'' vars =
     Some \<lparr>ValueResult = 2, ErrorResult = 5, f_end = 6, Variables_end = vars\<rparr>
   \<and> evalform (12 + k) libc_real ''2+3$'' vars =
     Some \<lparr>ValueResult = 2, ErrorResult = 4, f_end = 3, Variables_end = vars\<rparr>"
proof -
  have a: "evalform 12 libc_real ''1+2)'' vars =
     Some \<lparr>ValueResult = 3, ErrorResult = 3, f_end = 4, Variables_end = vars\<rparr>"
    by (subst twelve) (simp add: run_simps)
  have b: "evalform 12 libc_real ''2+1/0'' vars =
     Some \<lparr>ValueResult = 2, ErrorResult = 5, f_end = 6, Variables_end = vars\<rparr>"
    by (subst twelve) (simp add: run_simps)
  have c: "evalform 12 libc_real ''2+3$'' vars =
     Some \<lparr>ValueResult = 2, ErrorResult = 4, f_end = 3, Variables_end = vars\<rparr>"
    by (subst twelve) (simp add: run_simps)
  show ?thesis
    using evalform_fuel[OF a, of k] evalform_fuel[OF b, of k] evalform_fuel[OF c, of k]
    by simp
qed

theorem error_value_not_default_witness:
  "evalform 12 libc_real ''1+2)'' [] =
     Some \<lparr>ValueResult = 3, ErrorResult = 3, f_end = 4, Variables_end = []\<rparr>
   \<and> evalform 12 libc_real ''2+1/0'' [] =
     Some \<lparr>ValueResult = 2, ErrorResult = 5, f_end = 6, Variables_end = []\<rparr>"
  using error_value_not_default[of 0 "[]"] by simp

section \<open>The pointer that evalform returns\<close>

text \<open>
  C3. \<open>ParseFormula\<close> steps over the terminating null character as over every other
  operator, so on success \<open>evalform\<close> leaves the pointer one past the null character:
  on \<open>1\<close>, of length 1, at offset 2. On \<open>1/0\<close> and on \<open>(1+2\<close> the error is found
  after the null character is read, and the pointer is left one past it as well.
\<close>

theorem end_cursor_past_null:
  "evalform (12 + k) libc_real ''1'' vars =
     Some \<lparr>ValueResult = 1, ErrorResult = 0, f_end = 2, Variables_end = vars\<rparr>
   \<and> length ''1'' = 1
   \<and> evalform (12 + k) libc_real ''1/0'' vars =
     Some \<lparr>ValueResult = 0, ErrorResult = 5, f_end = 4, Variables_end = vars\<rparr>
   \<and> length ''1/0'' = 3
   \<and> evalform (12 + k) libc_real ''(1+2'' vars =
     Some \<lparr>ValueResult = 0, ErrorResult = 2, f_end = 5, Variables_end = vars\<rparr>
   \<and> length ''(1+2'' = 4"
proof -
  have a: "evalform 12 libc_real ''1'' vars =
     Some \<lparr>ValueResult = 1, ErrorResult = 0, f_end = 2, Variables_end = vars\<rparr>"
    by (subst twelve) (simp add: run_simps)
  have b: "evalform 12 libc_real ''1/0'' vars =
     Some \<lparr>ValueResult = 0, ErrorResult = 5, f_end = 4, Variables_end = vars\<rparr>"
    by (subst twelve) (simp add: run_simps)
  have c: "evalform 12 libc_real ''(1+2'' vars =
     Some \<lparr>ValueResult = 0, ErrorResult = 2, f_end = 5, Variables_end = vars\<rparr>"
    by (subst twelve) (simp add: run_simps)
  show ?thesis
    using evalform_fuel[OF a, of k] evalform_fuel[OF b, of k] evalform_fuel[OF c, of k]
    by simp
qed

theorem end_cursor_past_null_witness:
  "evalform 12 libc_real ''1'' [] =
     Some \<lparr>ValueResult = 1, ErrorResult = 0, f_end = 2, Variables_end = []\<rparr>"
  using end_cursor_past_null[of 0 "[]"] by simp

end
